theory Spec2Isabelle
  imports Complex_Main "HOL-Library.Sublist"
begin

section \<open>Data model: tables, columns and value kinds\<close>

text \<open>
  The library under study (\<^verbatim>\<open>soporte.py\<close>) works on pandas data frames.  A data frame is
  an ordered collection of labelled columns; pandas does not require the labels to be
  different, so a table is a list of columns and not a map from labels.  Every column
  has a value kind (its dtype) and one value per row.
\<close>

datatype dtype = Int64 | Float64 | Object | Boolean | Datetime64

datatype cell = N int | S string | NaN

record column =
  name :: string
  kind :: dtype
  vals :: "cell list"

type_synonym table = "column list"

text \<open>
  \<^verbatim>\<open>np.number\<close> covers the integer and floating kinds; booleans and timestamps are not
  numbers for \<^verbatim>\<open>select_dtypes\<close>.  \<^verbatim>\<open>'O'\<close> is the object kind (text).
\<close>

fun np_number :: "dtype \<Rightarrow> bool" where
  "np_number Int64 = True"
| "np_number Float64 = True"
| "np_number Object = False"
| "np_number Boolean = False"
| "np_number Datetime64 = False"

fun np_object :: "dtype \<Rightarrow> bool" where
  "np_object Object = True"
| "np_object Int64 = False"
| "np_object Float64 = False"
| "np_object Boolean = False"
| "np_object Datetime64 = False"

text \<open>
  \<^verbatim>\<open>df.select_dtypes(include = k)\<close> builds a new frame from the columns whose kind is
  selected, in the order of the frame.
\<close>

definition select_dtypes :: "(dtype \<Rightarrow> bool) \<Rightarrow> table \<Rightarrow> table" where
  "select_dtypes include df = filter (\<lambda>c. include (kind c)) df"

definition columns :: "table \<Rightarrow> string list" where
  "columns df = map name df"

section \<open>The column classifier\<close>

text \<open>
  \<^verbatim>\<open>
  def separar_df(df):
      df_num = df.select_dtypes(include = np.number)
      df_cat = df.select_dtypes(include = 'O')
      return df_num, df_cat
  \<close>
\<close>

definition separar_df :: "table \<Rightarrow> table \<times> table" where
  "separar_df df =
     (let df_num = select_dtypes np_number df;
          df_cat = select_dtypes np_object df
      in (df_num, df_cat))"


section \<open>The plotting collaborators\<close>

text \<open>
  The renderers talk to matplotlib and seaborn.  What they ask for is modelled as a
  value: a figure is a grid of axes, every axes records the chart drawn into it, its
  title, its x label, the rotation of its tick labels, and whether it is still part of
  the figure.  An exception of Python is a value of \<open>py_error\<close>, and a call that may
  raise returns \<open>py_error + 'a\<close>.
\<close>

datatype py_error =
    KeyError string        \<comment> \<open>pandas: \<^verbatim>\<open>Column not found\<close>\<close>
  | ValueError string      \<comment> \<open>matplotlib, pandas and seaborn argument checks\<close>
  | TypeError string       \<comment> \<open>pandas: aggregation of a column that has no mean\<close>
  | IndexError             \<comment> \<open>index out of range of the flat axes array or of a list\<close>
  | AxesNotInFigure        \<comment> \<open>\<^verbatim>\<open>delaxes\<close> of an axes that has left the figure\<close>

definition py_bind :: "py_error + 'a \<Rightarrow> ('a \<Rightarrow> py_error + 'b) \<Rightarrow> py_error + 'b" where
  "py_bind m f = (case m of Inl e \<Rightarrow> Inl e | Inr x \<Rightarrow> f x)"

text \<open>A colour of the resampled \<^verbatim>\<open>mako\<close> map: entry \<open>i\<close> of a map of \<open>n\<close> colours.\<close>

datatype rgba = Mako nat nat

datatype chart =
    Histplot string nat             \<comment> \<open>x, bins\<close>
  | Countplot string "cell list"    \<comment> \<open>x, order of the bars\<close>
  | Barplot string string           \<comment> \<open>x, y, on the frame of the means by group\<close>
  | Scatterplot string string       \<comment> \<open>x, y\<close>
  | Boxplot string rgba             \<comment> \<open>x, color\<close>

record axes =
  chart :: "chart option"
  title :: "string option"
  xlabel :: "string option"
  xtick_rotation :: "nat option"
  in_figure :: bool

record figure =
  nrows :: nat
  ncols :: nat
  axs :: "axes list"
  tight :: bool

definition new_axes :: axes where
  "new_axes = \<lparr>chart = None, title = None, xlabel = None, xtick_rotation = None,
               in_figure = True\<rparr>"

text \<open>
  \<^verbatim>\<open>plt.subplots(nrows = r, ncols = c)\<close> makes a figure with \<open>r * c\<close> fresh axes; matplotlib
  refuses a grid without rows or without columns with a \<^verbatim>\<open>ValueError\<close>.  The renderers
  take \<^verbatim>\<open>axes.flat\<close>, the axes in row-major order, which is the list \<open>axs\<close>.
\<close>

definition subplots :: "nat \<Rightarrow> nat \<Rightarrow> py_error + figure" where
  "subplots r c =
     (if r = 0 then Inl (ValueError ''Number of rows must be a positive integer'')
      else if c = 0 then Inl (ValueError ''Number of columns must be a positive integer'')
      else Inr \<lparr>nrows = r, ncols = c, axs = replicate (r * c) new_axes, tight = False\<rparr>)"

text \<open>
  \<^verbatim>\<open>axes[i]\<close> on the flat array: a negative index counts from the end, an index out of
  range raises \<^verbatim>\<open>IndexError\<close>.
\<close>

definition flat_index :: "figure \<Rightarrow> int \<Rightarrow> py_error + nat" where
  "flat_index fig i =
     (if 0 \<le> i \<and> i < int (length (axs fig)) then Inr (nat i)
      else if i < 0 \<and> - int (length (axs fig)) \<le> i then Inr (nat (int (length (axs fig)) + i))
      else Inl IndexError)"

text \<open>A drawing or labelling call on \<^verbatim>\<open>axes[i]\<close>: the axes at that index is updated.\<close>

definition on_axes :: "figure \<Rightarrow> int \<Rightarrow> (axes \<Rightarrow> axes) \<Rightarrow> py_error + figure" where
  "on_axes fig i f =
     py_bind (flat_index fig i) (\<lambda>j. Inr (fig\<lparr>axs := (axs fig)[j := f (axs fig ! j)]\<rparr>))"

text \<open>
  \<^verbatim>\<open>fig.delaxes(axes[i])\<close> takes the axes out of the figure; matplotlib raises when the
  axes is not in the figure any more.
\<close>

definition delaxes :: "figure \<Rightarrow> int \<Rightarrow> py_error + figure" where
  "delaxes fig i =
     py_bind (flat_index fig i) (\<lambda>j.
       if in_figure (axs fig ! j)
       then Inr (fig\<lparr>axs := (axs fig)[j := (axs fig ! j)\<lparr>in_figure := False\<rparr>]\<rparr>)
       else Inl AxesNotInFigure)"

definition tight_layout :: "figure \<Rightarrow> py_error + figure" where
  "tight_layout fig = Inr (fig\<lparr>tight := True\<rparr>)"

text \<open>\<^verbatim>\<open>xs[i]\<close> on a Python list, for an index that is not negative.\<close>

definition list_get :: "'a list \<Rightarrow> nat \<Rightarrow> py_error + 'a" where
  "list_get xs i = (if i < length xs then Inr (xs ! i) else Inl IndexError)"

text \<open>
  \<^verbatim>\<open>for i, col in enumerate(cols): body\<close>, on a state that the body updates; an exception
  in the body ends the loop.
\<close>

fun for_enumerate ::
  "(nat \<Rightarrow> 'a \<Rightarrow> 's \<Rightarrow> py_error + 's) \<Rightarrow> 'a list \<Rightarrow> nat \<Rightarrow> 's \<Rightarrow> py_error + 's" where
  "for_enumerate body [] i s = Inr s"
| "for_enumerate body (c # cs) i s =
     (case body i c s of Inl e \<Rightarrow> Inl e | Inr s' \<Rightarrow> for_enumerate body cs (Suc i) s')"

text \<open>
  \<^verbatim>\<open>math.ceil(n_plots / 2)\<close>: the quotient is a float in Python, exact for every count of
  columns below \<open>2\<^sup>5\<^sup>3\<close>, and is a real number here.
\<close>

definition math_ceil_half :: "nat \<Rightarrow> nat" where
  "math_ceil_half n_plots = nat \<lceil>real n_plots / 2\<rceil>"

section \<open>The pandas collaborators\<close>

text \<open>
  \<^verbatim>\<open>df[col]\<close> selects by label: every column with that label.  With one such column the
  result is a series, with several a frame.
\<close>

definition getitem :: "table \<Rightarrow> string \<Rightarrow> table" where
  "getitem df col = filter (\<lambda>c. name c = col) df"

text \<open>
  \<^verbatim>\<open>value_counts().index\<close> of a series: its different values, without the missing ones, by
  falling count.  The order among equal counts is taken to be the order of first
  appearance.
\<close>

definition value_counts_index :: "cell list \<Rightarrow> cell list" where
  "value_counts_index xs =
     (let vs = filter (\<lambda>v. v \<noteq> NaN) xs
      in sort_key (\<lambda>v. - int (count_list vs v)) (rev (remdups (rev vs))))"

text \<open>
  \<^verbatim>\<open>df[col].value_counts().index\<close>.  When the label is repeated, \<^verbatim>\<open>df[col]\<close> is a frame, its
  \<^verbatim>\<open>value_counts\<close> groups by the repeated label and pandas raises \<^verbatim>\<open>ValueError\<close>
  (\<^verbatim>\<open>Grouper for 'col' not 1-dimensional\<close>).
\<close>

definition getitem_value_counts_index :: "table \<Rightarrow> string \<Rightarrow> py_error + cell list" where
  "getitem_value_counts_index df col =
     (case getitem df col of
        [] \<Rightarrow> Inl (KeyError col)
      | [c] \<Rightarrow> Inr (value_counts_index (vals c))
      | _ \<Rightarrow> Inl (ValueError ''Grouper not 1-dimensional''))"

text \<open>
  \<^verbatim>\<open>df.groupby(col)[vr].mean().sort_values(ascending=False).reset_index()\<close>.  The grouping
  label must name one column (\<^verbatim>\<open>Grouper for 'col' not 1-dimensional\<close> otherwise), a
  missing \<^verbatim>\<open>vr\<close> raises \<^verbatim>\<open>KeyError: 'Column not found: vr'\<close>, and the mean of a text column
  or the sort of a frame of several \<^verbatim>\<open>vr\<close> columns raises a \<^verbatim>\<open>TypeError\<close>.  The means
  themselves are floating point numbers; the result is kept as the frame of the two
  labels.
\<close>

datatype agg_frame = MeanByGroup string string

definition groupby_mean_sorted :: "table \<Rightarrow> string \<Rightarrow> string \<Rightarrow> py_error + agg_frame" where
  "groupby_mean_sorted df col vr =
     (case getitem df col of
        [] \<Rightarrow> Inl (KeyError col)
      | [g] \<Rightarrow>
          (case getitem df vr of
             [] \<Rightarrow> Inl (KeyError (''Column not found: '' @ vr))
           | [y] \<Rightarrow> if np_object (kind y) then Inl (TypeError ''agg function failed'')
                    else Inr (MeanByGroup col vr)
           | _ \<Rightarrow> Inl (TypeError ''sort_values() missing by''))
      | _ \<Rightarrow> Inl (ValueError ''Grouper not 1-dimensional''))"

section \<open>The seaborn collaborators\<close>

text \<open>
  seaborn looks the names \<open>x\<close> and \<open>y\<close> up in \<open>data\<close>.  It raises a \<^verbatim>\<open>ValueError\<close> for a
  name that is not a column of \<open>data\<close>, and for a name that several columns of \<open>data\<close>
  carry: \<^verbatim>\<open>data[name]\<close> is then a frame, and the plot data must be one-dimensional.
\<close>

fun sns_lookups :: "string list \<Rightarrow> string list \<Rightarrow> py_error + unit" where
  "sns_lookups data_columns [] = Inr ()"
| "sns_lookups data_columns (v # vs) =
     (if v \<notin> set data_columns then Inl (ValueError (''Could not interpret value '' @ v))
      else if count_list data_columns v \<noteq> 1 then Inl (ValueError ''Data must be 1-dimensional'')
      else sns_lookups data_columns vs)"

text \<open>
  The arguments of a chart that seaborn or numpy reject: a histogram needs a positive
  number of bins.
\<close>

fun chart_check :: "chart \<Rightarrow> py_error + unit" where
  "chart_check (Histplot x bins) =
     (if bins = 0 then Inl (ValueError ''bins must be positive'') else Inr ())"
| "chart_check (Countplot x order) = Inr ()"
| "chart_check (Barplot x y) = Inr ()"
| "chart_check (Scatterplot x y) = Inr ()"
| "chart_check (Boxplot x color) = Inr ()"

text \<open>
  A seaborn plot \<^verbatim>\<open>sns.plot(x = .., y = .., data = .., ax = axes[i], ..)\<close>: the argument
  \<^verbatim>\<open>axes[i]\<close> is evaluated before the call, the names are looked up in the data, the
  arguments of the chart are checked, and the chart goes into the axes.  The marks that
  seaborn computes from the values of the columns are not modelled.
\<close>

definition sns_draw ::
  "string list \<Rightarrow> string list \<Rightarrow> chart \<Rightarrow> figure \<Rightarrow> int \<Rightarrow> py_error + figure" where
  "sns_draw data_columns vs ch fig i =
     py_bind (flat_index fig i) (\<lambda>j.
     py_bind (sns_lookups data_columns vs) (\<lambda>_.
     py_bind (chart_check ch) (\<lambda>_.
       Inr (fig\<lparr>axs := (axs fig)[j := (axs fig ! j)\<lparr>chart := Some ch\<rparr>]\<rparr>))))"


section \<open>The renderers\<close>

text \<open>
  The five grid renderers end with the same three lines:
  \<^verbatim>\<open>
      # Quitamos el ultimo, si queda vacio
      if n_plots % 2 != 0:
          fig.delaxes(axes[-1])
      plt.tight_layout()
  \<close>
  Every renderer is given in two definitions: \<open>f_charts\<close> is the function up to the end of
  its loop, and \<open>f\<close> is the whole function, the charts followed by these lines.
\<close>

definition quitar_ultimo :: "nat \<Rightarrow> figure \<Rightarrow> py_error + figure" where
  "quitar_ultimo n_plots fig = (if n_plots mod 2 \<noteq> 0 then delaxes fig (- 1) else Inr fig)"

text \<open>
  \<^verbatim>\<open>
  def plot_numericas(df, nbins = 20):
      df_num = separar_df(df)[0]
      n_plots = len(df_num.columns)
      num_filas = math.ceil(n_plots/2)
      fig, axes = plt.subplots(nrows=num_filas, ncols=2, figsize = (15, 10))
      axes = axes.flat
      for i, col in enumerate(df_num.columns):
          sns.histplot(x = col, data = df_num, ax = axes[i], bins = nbins)
          axes[i].set_title(col)
          axes[i].set_xlabel('')
      if n_plots % 2 != 0:
          fig.delaxes(axes[-1])
      plt.tight_layout()
  \<close>
  The number of bins is a natural number here.
\<close>

definition plot_numericas_body ::
  "table \<Rightarrow> nat \<Rightarrow> nat \<Rightarrow> string \<Rightarrow> figure \<Rightarrow> py_error + figure" where
  "plot_numericas_body df_num nbins i col fig =
     py_bind (sns_draw (columns df_num) [col] (Histplot col nbins) fig (int i)) (\<lambda>fig.
     py_bind (on_axes fig (int i) (\<lambda>a. a\<lparr>title := Some col\<rparr>)) (\<lambda>fig.
     on_axes fig (int i) (\<lambda>a. a\<lparr>xlabel := Some ''''\<rparr>)))"

definition plot_numericas_charts :: "table \<Rightarrow> nat \<Rightarrow> py_error + figure" where
  "plot_numericas_charts df nbins =
     (let df_num = fst (separar_df df);
          n_plots = length (columns df_num);
          num_filas = math_ceil_half n_plots
      in py_bind (subplots num_filas 2) (\<lambda>fig.
         for_enumerate (plot_numericas_body df_num nbins) (columns df_num) 0 fig))"

definition plot_numericas :: "table \<Rightarrow> nat \<Rightarrow> py_error + figure" where
  "plot_numericas df nbins =
     (let df_num = fst (separar_df df);
          n_plots = length (columns df_num)
      in py_bind (plot_numericas_charts df nbins) (\<lambda>fig.
         py_bind (quitar_ultimo n_plots fig) (\<lambda>fig.
         tight_layout fig)))"

text \<open>
  \<^verbatim>\<open>
  def plot_categoricas(df):
      df_cat = separar_df(df)[1]
      n_plots = len(df_cat.columns)
      num_filas = math.ceil(n_plots/2)
      fig, axes = plt.subplots(nrows=num_filas, ncols=2, figsize = (15, 10))
      axes = axes.flat
      for i, col in enumerate(df_cat.columns):
          sns.countplot(x = col, data = df_cat, ax = axes[i], palette='mako',
                        order = df[col].value_counts().index)
          axes[i].set_title(col)
          axes[i].set_xlabel('')
          axes[i].tick_params(axis='x', rotation=45)
      if n_plots % 2 != 0:
          fig.delaxes(axes[-1])
      plt.tight_layout()
  \<close>
  The arguments of \<^verbatim>\<open>sns.countplot\<close> are evaluated in their order: \<^verbatim>\<open>axes[i]\<close>, then the
  order of the bars, then the call.
\<close>

definition plot_categoricas_body ::
  "table \<Rightarrow> table \<Rightarrow> nat \<Rightarrow> string \<Rightarrow> figure \<Rightarrow> py_error + figure" where
  "plot_categoricas_body df df_cat i col fig =
     py_bind (flat_index fig (int i)) (\<lambda>_.
     py_bind (getitem_value_counts_index df col) (\<lambda>order.
     py_bind (sns_draw (columns df_cat) [col] (Countplot col order) fig (int i)) (\<lambda>fig.
     py_bind (on_axes fig (int i) (\<lambda>a. a\<lparr>title := Some col\<rparr>)) (\<lambda>fig.
     py_bind (on_axes fig (int i) (\<lambda>a. a\<lparr>xlabel := Some ''''\<rparr>)) (\<lambda>fig.
     on_axes fig (int i) (\<lambda>a. a\<lparr>xtick_rotation := Some 45\<rparr>))))))"

definition plot_categoricas_charts :: "table \<Rightarrow> py_error + figure" where
  "plot_categoricas_charts df =
     (let df_cat = snd (separar_df df);
          n_plots = length (columns df_cat);
          num_filas = math_ceil_half n_plots
      in py_bind (subplots num_filas 2) (\<lambda>fig.
         for_enumerate (plot_categoricas_body df df_cat) (columns df_cat) 0 fig))"

definition plot_categoricas :: "table \<Rightarrow> py_error + figure" where
  "plot_categoricas df =
     (let df_cat = snd (separar_df df);
          n_plots = length (columns df_cat)
      in py_bind (plot_categoricas_charts df) (\<lambda>fig.
         py_bind (quitar_ultimo n_plots fig) (\<lambda>fig.
         tight_layout fig)))"

text \<open>
  \<^verbatim>\<open>
  def relacion_vr_categoricas(df, vr):
      df_cat = df.select_dtypes(include = 'O')
      cols_cat = df_cat.columns
      n_plots = len(cols_cat)
      num_filas = math.ceil(n_plots/2)
      fig, axes = plt.subplots(nrows=num_filas, ncols=2, figsize = (15, 10))
      axes = axes.flat
      for i, col in enumerate(cols_cat):
          datos_agrupados = df.groupby(col)[vr].mean().sort_values(ascending=False).reset_index()
          sns.barplot(x = col, y = vr, data = datos_agrupados, ax = axes[i], palette = 'mako')
          axes[i].set_title(col)
          axes[i].set_xlabel('')
          axes[i].tick_params(axis='x', rotation=45)
      if n_plots % 2 != 0:
          fig.delaxes(axes[-1])
      plt.tight_layout()
  \<close>
  The frame \<^verbatim>\<open>datos_agrupados\<close> has the two columns \<^verbatim>\<open>col\<close> and \<^verbatim>\<open>vr\<close>.
\<close>

definition relacion_vr_categoricas_body ::
  "table \<Rightarrow> string \<Rightarrow> nat \<Rightarrow> string \<Rightarrow> figure \<Rightarrow> py_error + figure" where
  "relacion_vr_categoricas_body df vr i col fig =
     py_bind (groupby_mean_sorted df col vr) (\<lambda>datos_agrupados.
     py_bind (sns_draw [col, vr] [col, vr] (Barplot col vr) fig (int i)) (\<lambda>fig.
     py_bind (on_axes fig (int i) (\<lambda>a. a\<lparr>title := Some col\<rparr>)) (\<lambda>fig.
     py_bind (on_axes fig (int i) (\<lambda>a. a\<lparr>xlabel := Some ''''\<rparr>)) (\<lambda>fig.
     on_axes fig (int i) (\<lambda>a. a\<lparr>xtick_rotation := Some 45\<rparr>)))))"

definition relacion_vr_categoricas_charts :: "table \<Rightarrow> string \<Rightarrow> py_error + figure" where
  "relacion_vr_categoricas_charts df vr =
     (let df_cat = select_dtypes np_object df;
          cols_cat = columns df_cat;
          n_plots = length cols_cat;
          num_filas = math_ceil_half n_plots
      in py_bind (subplots num_filas 2) (\<lambda>fig.
         for_enumerate (relacion_vr_categoricas_body df vr) cols_cat 0 fig))"

definition relacion_vr_categoricas :: "table \<Rightarrow> string \<Rightarrow> py_error + figure" where
  "relacion_vr_categoricas df vr =
     (let df_cat = select_dtypes np_object df;
          cols_cat = columns df_cat;
          n_plots = length cols_cat
      in py_bind (relacion_vr_categoricas_charts df vr) (\<lambda>fig.
         py_bind (quitar_ultimo n_plots fig) (\<lambda>fig.
         tight_layout fig)))"

text \<open>
  \<^verbatim>\<open>
  def relacion_vr_numericas(df, vr):
      df_num = df.select_dtypes(include = np.number)
      cols_num = df_num.columns
      n_plots = len(cols_num)
      num_filas = math.ceil(n_plots/2)
      fig, axes = plt.subplots(nrows=num_filas, ncols=2, figsize = (15, 10))
      axes = axes.flat
      for i, col in enumerate(cols_num):
          if col == vr:
              fig.delaxes(axes[i])
          else:
              sns.scatterplot(x = col, y = vr, data = df_num, ax = axes[i], palette = 'mako')
              axes[i].set_title(col)
              axes[i].set_xlabel('')
      if n_plots % 2 != 0:
          fig.delaxes(axes[-1])
      plt.tight_layout()
  \<close>
\<close>

definition relacion_vr_numericas_body ::
  "table \<Rightarrow> string \<Rightarrow> nat \<Rightarrow> string \<Rightarrow> figure \<Rightarrow> py_error + figure" where
  "relacion_vr_numericas_body df_num vr i col fig =
     (if col = vr then delaxes fig (int i)
      else
        py_bind (sns_draw (columns df_num) [col, vr] (Scatterplot col vr) fig (int i)) (\<lambda>fig.
        py_bind (on_axes fig (int i) (\<lambda>a. a\<lparr>title := Some col\<rparr>)) (\<lambda>fig.
        on_axes fig (int i) (\<lambda>a. a\<lparr>xlabel := Some ''''\<rparr>))))"

definition relacion_vr_numericas_charts :: "table \<Rightarrow> string \<Rightarrow> py_error + figure" where
  "relacion_vr_numericas_charts df vr =
     (let df_num = select_dtypes np_number df;
          cols_num = columns df_num;
          n_plots = length cols_num;
          num_filas = math_ceil_half n_plots
      in py_bind (subplots num_filas 2) (\<lambda>fig.
         for_enumerate (relacion_vr_numericas_body df_num vr) cols_num 0 fig))"

definition relacion_vr_numericas :: "table \<Rightarrow> string \<Rightarrow> py_error + figure" where
  "relacion_vr_numericas df vr =
     (let df_num = select_dtypes np_number df;
          cols_num = columns df_num;
          n_plots = length cols_num
      in py_bind (relacion_vr_numericas_charts df vr) (\<lambda>fig.
         py_bind (quitar_ultimo n_plots fig) (\<lambda>fig.
         tight_layout fig)))"

text \<open>
  \<^verbatim>\<open>
  def detectar_outliers(df, vr):
      df_num = df.select_dtypes(include = np.number)
      cols_num = df_num.columns
      n_plots = len(cols_num)
      num_filas = math.ceil(n_plots/2)
      cmap = plt.cm.get_cmap('mako', n_plots)
      color_list = [cmap(i) for i in range(cmap.N)]
      fig, axes = plt.subplots(nrows=num_filas, ncols=2, figsize = (9, 5))
      axes = axes.flat
      for i, col in enumerate(cols_num):
          sns.boxplot(x = col, data = df_num, ax = axes[i], color=color_list[i])
          axes[i].set_title(f'Outliers de {col}')
          axes[i].set_xlabel('')
      if n_plots % 2 != 0:
          fig.delaxes(axes[-1])
      plt.tight_layout()
  \<close>
  The colour map \<^verbatim>\<open>mako\<close> resampled to \<open>n_plots\<close> entries has \<open>N = n_plots\<close>.
\<close>

definition detectar_outliers_body ::
  "table \<Rightarrow> rgba list \<Rightarrow> nat \<Rightarrow> string \<Rightarrow> figure \<Rightarrow> py_error + figure" where
  "detectar_outliers_body df_num color_list i col fig =
     py_bind (flat_index fig (int i)) (\<lambda>_.
     py_bind (list_get color_list i) (\<lambda>color.
     py_bind (sns_draw (columns df_num) [col] (Boxplot col color) fig (int i)) (\<lambda>fig.
     py_bind (on_axes fig (int i) (\<lambda>a. a\<lparr>title := Some (''Outliers de '' @ col)\<rparr>)) (\<lambda>fig.
     on_axes fig (int i) (\<lambda>a. a\<lparr>xlabel := Some ''''\<rparr>)))))"

definition detectar_outliers_charts :: "table \<Rightarrow> string \<Rightarrow> py_error + figure" where
  "detectar_outliers_charts df vr =
     (let df_num = select_dtypes np_number df;
          cols_num = columns df_num;
          n_plots = length cols_num;
          num_filas = math_ceil_half n_plots;
          cmap_N = n_plots;
          color_list = map (\<lambda>i. Mako i n_plots) [0..<cmap_N]
      in py_bind (subplots num_filas 2) (\<lambda>fig.
         for_enumerate (detectar_outliers_body df_num color_list) cols_num 0 fig))"

definition detectar_outliers :: "table \<Rightarrow> string \<Rightarrow> py_error + figure" where
  "detectar_outliers df vr =
     (let df_num = select_dtypes np_number df;
          cols_num = columns df_num;
          n_plots = length cols_num
      in py_bind (detectar_outliers_charts df vr) (\<lambda>fig.
         py_bind (quitar_ultimo n_plots fig) (\<lambda>fig.
         tight_layout fig)))"


section \<open>The correlation heat map\<close>







section \<open>The result of a loop over the axes\<close>

text \<open>
  A loop whose body changes the axes at its own index only leaves the axes list
  \<open>upd_all g cols i xs\<close>: the axes at \<open>i + k\<close> is changed by \<open>g (i + k) (cols ! k)\<close>.
\<close>

fun upd_all :: "(nat \<Rightarrow> 'a \<Rightarrow> axes \<Rightarrow> axes) \<Rightarrow> 'a list \<Rightarrow> nat \<Rightarrow> axes list \<Rightarrow> axes list" where
  "upd_all g [] i xs = xs"
| "upd_all g (c # cs) i xs = upd_all g cs (Suc i) (xs[i := g i c (xs ! i)])"

text \<open>What the bodies of the five loops do to the axes at their index.\<close>

definition hist_axes :: "nat \<Rightarrow> nat \<Rightarrow> string \<Rightarrow> axes \<Rightarrow> axes" where
  "hist_axes nbins i col a = a\<lparr>chart := Some (Histplot col nbins), title := Some col,
     xlabel := Some ''''\<rparr>"

definition order_of :: "table \<Rightarrow> string \<Rightarrow> cell list" where
  "order_of df col = (case getitem df col of [c] \<Rightarrow> value_counts_index (vals c) | _ \<Rightarrow> [])"

definition count_axes :: "table \<Rightarrow> nat \<Rightarrow> string \<Rightarrow> axes \<Rightarrow> axes" where
  "count_axes df i col a =
     a\<lparr>chart := Some (Countplot col (order_of df col)),
       title := Some col, xlabel := Some '''', xtick_rotation := Some 45\<rparr>"

definition bar_axes :: "string \<Rightarrow> nat \<Rightarrow> string \<Rightarrow> axes \<Rightarrow> axes" where
  "bar_axes vr i col a = a\<lparr>chart := Some (Barplot col vr), title := Some col,
     xlabel := Some '''', xtick_rotation := Some 45\<rparr>"

definition scatter_axes :: "string \<Rightarrow> nat \<Rightarrow> string \<Rightarrow> axes \<Rightarrow> axes" where
  "scatter_axes vr i col a =
     (if col = vr then a\<lparr>in_figure := False\<rparr>
      else a\<lparr>chart := Some (Scatterplot col vr), title := Some col, xlabel := Some ''''\<rparr>)"

definition box_axes :: "nat \<Rightarrow> nat \<Rightarrow> string \<Rightarrow> axes \<Rightarrow> axes" where
  "box_axes n_plots i col a = a\<lparr>chart := Some (Boxplot col (Mako i n_plots)),
     title := Some (''Outliers de '' @ col), xlabel := Some ''''\<rparr>"

text \<open>The frequency of a category among the values of a column that are not missing.\<close>

definition frequency :: "cell list \<Rightarrow> cell \<Rightarrow> nat" where
  "frequency xs v = count_list (filter (\<lambda>v. v \<noteq> NaN) xs) v"

text \<open>The axes of a figure that are in the figure and show a scatter chart.\<close>

definition scatter_cells :: "figure \<Rightarrow> nat list" where
  "scatter_cells fig =
     filter (\<lambda>j. in_figure (axs fig ! j) \<and>
                 (case chart (axs fig ! j) of Some (Scatterplot x y) \<Rightarrow> True | _ \<Rightarrow> False))
       [0..<length (axs fig)]"

text \<open>
  The figure at the end of a loop in which every call succeeds, \<open>charted\<close>:
  \<open>math.ceil(n / 2)\<close> rows of two axes, the axes changed by the loop.  The figure at the
  end of the renderer, \<open>finished\<close>: the last axes taken out when \<open>n\<close> is odd, and the
  layout tightened.
\<close>

definition charted :: "(nat \<Rightarrow> string \<Rightarrow> axes \<Rightarrow> axes) \<Rightarrow> string list \<Rightarrow> figure" where
  "charted g cols =
     (let n_plots = length cols;
          num_filas = math_ceil_half n_plots
      in \<lparr>nrows = num_filas, ncols = 2,
           axs = upd_all g cols 0 (replicate (num_filas * 2) new_axes), tight = False\<rparr>)"

definition finished :: "(nat \<Rightarrow> string \<Rightarrow> axes \<Rightarrow> axes) \<Rightarrow> string list \<Rightarrow> figure" where
  "finished g cols =
     (let n_plots = length cols;
          xs = axs (charted g cols)
      in (charted g cols)
           \<lparr>axs := (if n_plots mod 2 \<noteq> 0
                    then xs[length xs - 1 := (last xs)\<lparr>in_figure := False\<rparr>] else xs),
            tight := True\<rparr>)"

text \<open>
  The grid the claims speak of: \<open>ceil(n_plots / 2)\<close> rows of two axes.  The clean-up at
  the end of a renderer removes the last axes of the flat array when it turns the figure
  \<open>before\<close> into the figure \<open>after\<close> by taking that axes, and no other, out of the figure.
\<close>

definition planned_grid :: "nat \<Rightarrow> figure \<Rightarrow> bool" where
  "planned_grid n_plots fig =
     (nrows fig = math_ceil_half n_plots \<and> ncols fig = 2
      \<and> length (axs fig) = math_ceil_half n_plots * 2)"

definition removes_last :: "figure \<Rightarrow> figure \<Rightarrow> bool" where
  "removes_last before after =
     (axs before \<noteq> [] \<and> in_figure (last (axs before))
      \<and> axs after = (axs before)[length (axs before) - 1
                        := (last (axs before))\<lparr>in_figure := False\<rparr>])"

text \<open>
  The table of the examples: two numeric columns, \<^verbatim>\<open>age\<close> and \<^verbatim>\<open>income\<close>, and two text
  columns, \<^verbatim>\<open>city\<close> and \<^verbatim>\<open>segment\<close>, with three rows.
\<close>

definition example_table :: table where
  "example_table =
     [\<lparr>name = ''age'', kind = Int64, vals = [N 30, N 41, N 52]\<rparr>,
      \<lparr>name = ''income'', kind = Float64, vals = [N 5, N 7, N 9]\<rparr>,
      \<lparr>name = ''city'', kind = Object, vals = [S ''Lugo'', S ''Vigo'', S ''Vigo'']\<rparr>,
      \<lparr>name = ''segment'', kind = Object, vals = [S ''a'', S ''b'', NaN]\<rparr>]"

text \<open>
  A table with one numeric and one text column, for which every renderer has an odd
  number of columns to draw.
\<close>

definition two_column_table :: table where
  "two_column_table =
     [\<lparr>name = ''age'', kind = Int64, vals = [N 30, N 41, N 52]\<rparr>,
      \<lparr>name = ''city'', kind = Object, vals = [S ''Lugo'', S ''Vigo'', S ''Vigo'']\<rparr>]"

text \<open>
  The shape of a figure, which no call on an axes changes.  A renderer fulfils the grid
  rule for \<open>n_plots\<close> columns when its loop ends with a figure \<open>before\<close> and the renderer
  with a figure \<open>after\<close>, both with the planned grid, and the lines after the loop remove
  the last axes if and only if \<open>n_plots\<close> is odd, and change no axes when it is even.
\<close>

definition grid_shape :: "figure \<Rightarrow> nat \<times> nat \<times> nat" where
  "grid_shape fig = (nrows fig, ncols fig, length (axs fig))"

definition grid_rule :: "nat \<Rightarrow> py_error + figure \<Rightarrow> py_error + figure \<Rightarrow> bool" where
  "grid_rule n_plots charts result =
     (\<exists>before after. charts = Inr before \<and> result = Inr after
        \<and> planned_grid n_plots before \<and> planned_grid n_plots after
        \<and> (removes_last before after \<longleftrightarrow> odd n_plots)
        \<and> (even n_plots \<longrightarrow> axs after = axs before))"


section \<open>The cells that the loops address\<close>

text \<open>
  The figure when the loop of a renderer is about to run iteration \<open>k\<close>: the grid of
  \<^verbatim>\<open>plt.subplots\<close> after the first \<open>k\<close> iterations.  With \<open>k = length cols\<close> it is the
  figure at the end of the loop.
\<close>

definition loop_state ::
  "(nat \<Rightarrow> string \<Rightarrow> figure \<Rightarrow> py_error + figure) \<Rightarrow> string list \<Rightarrow> nat \<Rightarrow> py_error + figure" where
  "loop_state body cols k =
     py_bind (subplots (math_ceil_half (length cols)) 2) (\<lambda>fig.
       for_enumerate body (take k cols) 0 fig)"

text \<open>
  The index \<open>i\<close> is available in a state of a renderer for \<open>n_plots\<close> columns: when the
  renderer has come to that state with a figure, the figure is the planned grid, \<open>i\<close> is an
  index of its flat array of axes, and the axes at \<open>i\<close> has not been removed.  A renderer
  that has failed before uses no index any more.
\<close>

definition cell_available :: "nat \<Rightarrow> py_error + figure \<Rightarrow> int \<Rightarrow> bool" where
  "cell_available n_plots state i =
     (case state of
        Inl e \<Rightarrow> True
      | Inr fig \<Rightarrow>
          planned_grid n_plots fig
          \<and> (case flat_index fig i of Inl e \<Rightarrow> False | Inr j \<Rightarrow> in_figure (axs fig ! j)))"

text \<open>
  Two figures differ at the axes \<open>i\<close> only; the axes from \<open>k\<close> on are as \<^verbatim>\<open>plt.subplots\<close>
  made them; the two exceptions of the grid: an index out of range, and the removal of an
  axes that is not in the figure.
\<close>

definition only_at :: "nat \<Rightarrow> figure \<Rightarrow> figure \<Rightarrow> bool" where
  "only_at i fig fig' =
     (nrows fig' = nrows fig \<and> ncols fig' = ncols fig \<and> length (axs fig') = length (axs fig)
      \<and> (\<forall>j. j \<noteq> i \<longrightarrow> axs fig' ! j = axs fig ! j))"

definition untouched_from :: "nat \<Rightarrow> nat \<Rightarrow> figure \<Rightarrow> bool" where
  "untouched_from n_plots k fig =
     (planned_grid n_plots fig
      \<and> (\<forall>j. k \<le> j \<and> j < length (axs fig) \<longrightarrow> axs fig ! j = new_axes))"

definition grid_error :: "py_error \<Rightarrow> bool" where
  "grid_error e = (e = IndexError \<or> e = AxesNotInFigure)"

section \<open>The cells of the heat map\<close>




section \<open>The frames as objects\<close>











section \<open>Basic facts about the collaborators and the loops\<close>

lemma py_bind_Inr: "py_bind (Inr x) f = f x"
  by (simp add: py_bind_def)

lemma py_bind_Inl: "py_bind (Inl e) f = Inl e"
  by (simp add: py_bind_def)

lemma math_ceil_half_eq: "math_ceil_half n = (n + 1) div 2"
proof -
  have "\<lceil>real n / 2\<rceil> = int ((n + 1) div 2)"
  proof (cases "even n")
    case True
    then obtain k where "n = 2 * k" by (auto elim: evenE)
    then show ?thesis by simp
  next
    case False
    then obtain k where k: "n = 2 * k + 1" by (auto elim: oddE)
    have "real n / 2 = real k + 1 / 2" using k by simp
    then have "\<lceil>real n / 2\<rceil> = int k + 1" by (simp add: ceiling_eq_iff)
    then show ?thesis using k by simp
  qed
  then show ?thesis by (simp add: math_ceil_half_def)
qed

lemma flat_index_nat: "i < length (axs fig) \<Longrightarrow> flat_index fig (int i) = Inr i"
  by (simp add: flat_index_def)

lemma flat_index_nat_out: "\<not> i < length (axs fig) \<Longrightarrow> flat_index fig (int i) = Inl IndexError"
  by (simp add: flat_index_def)

lemma flat_index_last:
  "axs fig \<noteq> [] \<Longrightarrow> flat_index fig (- 1) = Inr (length (axs fig) - 1)"
  by (cases "axs fig") (simp_all add: flat_index_def)

lemma on_axes_nat:
  "i < length (axs fig) \<Longrightarrow>
   on_axes fig (int i) f = Inr (fig\<lparr>axs := (axs fig)[i := f (axs fig ! i)]\<rparr>)"
  by (simp add: on_axes_def flat_index_nat py_bind_Inr)

lemma count_one_member: "count_list cs v = 1 \<Longrightarrow> v \<in> set cs"
  using count_list_0_iff [of cs v] by auto

lemma sns_lookups_ok:
  "(\<And>v. v \<in> set vs \<Longrightarrow> count_list cs v = 1) \<Longrightarrow> sns_lookups cs vs = Inr ()"
proof (induction vs)
  case Nil
  then show ?case by simp
next
  case (Cons v vs)
  have "count_list cs v = 1" using Cons.prems by simp
  moreover then have "v \<in> set cs" by (rule count_one_member)
  moreover have "sns_lookups cs vs = Inr ()" using Cons by simp
  ultimately show ?case by simp
qed

lemma sns_draw_nat:
  assumes "i < length (axs fig)" and "\<And>v. v \<in> set vs \<Longrightarrow> count_list cs v = 1"
    and "chart_check ch = Inr ()"
  shows "sns_draw cs vs ch fig (int i)
     = Inr (fig\<lparr>axs := (axs fig)[i := (axs fig ! i)\<lparr>chart := Some ch\<rparr>]\<rparr>)"
  using assms(1,3) sns_lookups_ok [of vs cs, OF assms(2)]
  by (simp add: sns_draw_def flat_index_nat py_bind_Inr)

lemma delaxes_nat:
  "i < length (axs fig) \<Longrightarrow> in_figure (axs fig ! i) \<Longrightarrow>
   delaxes fig (int i) = Inr (fig\<lparr>axs := (axs fig)[i := (axs fig ! i)\<lparr>in_figure := False\<rparr>]\<rparr>)"
  by (simp add: delaxes_def flat_index_nat py_bind_Inr)

lemma delaxes_last:
  "axs fig \<noteq> [] \<Longrightarrow> in_figure (last (axs fig)) \<Longrightarrow>
   delaxes fig (- 1)
     = Inr (fig\<lparr>axs := (axs fig)[length (axs fig) - 1 := (last (axs fig))\<lparr>in_figure := False\<rparr>]\<rparr>)"
  by (simp add: delaxes_def flat_index_last py_bind_Inr last_conv_nth)

lemma length_upd_all: "length (upd_all g cs i xs) = length xs"
  by (induction cs arbitrary: i xs) simp_all

lemma nth_upd_all:
  "i + length cs \<le> length xs \<Longrightarrow> j < length xs \<Longrightarrow>
   upd_all g cs i xs ! j
     = (if i \<le> j \<and> j < i + length cs then g j (cs ! (j - i)) (xs ! j) else xs ! j)"
proof (induction cs arbitrary: i xs)
  case Nil
  then show ?case by auto
next
  case (Cons c cs)
  have "upd_all g (c # cs) i xs ! j = upd_all g cs (Suc i) (xs[i := g i c (xs ! i)]) ! j"
    by simp
  also have "\<dots> = (if Suc i \<le> j \<and> j < Suc i + length cs
                    then g j (cs ! (j - Suc i)) (xs[i := g i c (xs ! i)] ! j)
                    else xs[i := g i c (xs ! i)] ! j)"
    using Cons.prems by (intro Cons.IH) simp_all
  also have "\<dots> = (if i \<le> j \<and> j < i + length (c # cs)
                    then g j ((c # cs) ! (j - i)) (xs ! j) else xs ! j)"
    using Cons.prems by (cases "j = i") (auto simp: nth_Cons' Suc_diff_le)
  finally show ?case .
qed

lemma for_enumerate_upd:
  assumes body: "\<And>i col fig. i0 \<le> i \<Longrightarrow> i < i0 + length cs \<Longrightarrow> i < length (axs fig) \<Longrightarrow>
             col \<in> set cs \<Longrightarrow> Q (axs fig ! i) \<Longrightarrow>
             body i col fig = Inr (fig\<lparr>axs := (axs fig)[i := g i col (axs fig ! i)]\<rparr>)"
    and len: "i0 + length cs \<le> length (axs fig)"
    and fresh: "\<And>j. i0 \<le> j \<Longrightarrow> j < length (axs fig) \<Longrightarrow> Q (axs fig ! j)"
  shows "for_enumerate body cs i0 fig = Inr (fig\<lparr>axs := upd_all g cs i0 (axs fig)\<rparr>)"
  using assms
proof (induction cs arbitrary: i0 fig)
  case Nil
  then show ?case by simp
next
  case (Cons c cs)
  let ?fig = "fig\<lparr>axs := (axs fig)[i0 := g i0 c (axs fig ! i0)]\<rparr>"
  have i0: "i0 < length (axs fig)" using Cons.prems(2) by simp
  have step: "body i0 c fig = Inr ?fig"
    using Cons.prems(1) [of i0 fig c] i0 Cons.prems(3) [of i0] by simp
  have "for_enumerate body cs (Suc i0) ?fig = Inr (?fig\<lparr>axs := upd_all g cs (Suc i0) (axs ?fig)\<rparr>)"
  proof (rule Cons.IH)
    show "\<And>i col fig. Suc i0 \<le> i \<Longrightarrow> i < Suc i0 + length cs \<Longrightarrow> i < length (axs fig) \<Longrightarrow>
             col \<in> set cs \<Longrightarrow> Q (axs fig ! i) \<Longrightarrow>
             body i col fig = Inr (fig\<lparr>axs := (axs fig)[i := g i col (axs fig ! i)]\<rparr>)"
      using Cons.prems(1) by simp
    show "Suc i0 + length cs \<le> length (axs ?fig)" using Cons.prems(2) by simp
    show "\<And>j. Suc i0 \<le> j \<Longrightarrow> j < length (axs ?fig) \<Longrightarrow> Q (axs ?fig ! j)"
      using Cons.prems(3) by simp
  qed
  with step show ?case by simp
qed

lemma for_enumerate_cases:
  assumes init: "I i0 s"
    and step: "\<And>k s. k < length cs \<Longrightarrow> I (i0 + k) s \<Longrightarrow>
             (case body (i0 + k) (cs ! k) s of Inr s' \<Rightarrow> I (Suc (i0 + k)) s' | Inl e \<Rightarrow> E e)"
  shows "case for_enumerate body cs i0 s of Inr s' \<Rightarrow> I (i0 + length cs) s' | Inl e \<Rightarrow> E e"
  using assms
proof (induction cs arbitrary: i0 s)
  case Nil
  then show ?case by simp
next
  case (Cons c cs)
  from Cons.prems(2) [of 0 s] Cons.prems(1)
  have first: "case body i0 c s of Inr s' \<Rightarrow> I (Suc i0) s' | Inl e \<Rightarrow> E e"
    by (auto split: sum.splits)
  show ?case
  proof (cases "body i0 c s")
    case (Inl e)
    with first show ?thesis by simp
  next
    case (Inr s')
    with first have I': "I (Suc i0) s'" by simp
    have "case for_enumerate body cs (Suc i0) s' of
            Inr s'' \<Rightarrow> I (Suc i0 + length cs) s'' | Inl e \<Rightarrow> E e"
    proof (rule Cons.IH [OF I'])
      fix k s assume "k < length cs" "I (Suc i0 + k) s"
      then show "case body (Suc i0 + k) (cs ! k) s of Inr s' \<Rightarrow> I (Suc (Suc i0 + k)) s' | Inl e \<Rightarrow> E e"
        using Cons.prems(2) [of "Suc k" s] by (auto split: sum.splits)
    qed
    with Inr show ?thesis by (auto split: sum.splits)
  qed
qed

section \<open>The figure of a loop that succeeds\<close>

lemma subplots_ok:
  "0 < r \<Longrightarrow> subplots r 2 = Inr \<lparr>nrows = r, ncols = 2, axs = replicate (r * 2) new_axes, tight = False\<rparr>"
  by (simp add: subplots_def)

lemma ceil_half_bounds: "n \<le> math_ceil_half n * 2" "math_ceil_half n * 2 \<le> n + 1"
  by (simp_all add: math_ceil_half_eq)

lemma ceil_half_odd: "n mod 2 \<noteq> 0 \<Longrightarrow> math_ceil_half n * 2 = n + 1"
  by (simp add: math_ceil_half_eq) presburger

lemma ceil_half_even: "n mod 2 = 0 \<Longrightarrow> math_ceil_half n * 2 = n"
  by (simp add: math_ceil_half_eq) presburger

lemma ceil_half_pos: "0 < n \<Longrightarrow> 0 < math_ceil_half n"
  by (simp add: math_ceil_half_eq)

lemma template_charted:
  assumes body: "\<And>i col fig. i < length cols \<Longrightarrow> i < length (axs fig) \<Longrightarrow> col \<in> set cols \<Longrightarrow>
             axs fig ! i = new_axes \<Longrightarrow>
             body i col fig = Inr (fig\<lparr>axs := (axs fig)[i := g i col (axs fig ! i)]\<rparr>)"
    and ne: "cols \<noteq> []"
  shows "py_bind (subplots (math_ceil_half (length cols)) 2) (\<lambda>fig.
           for_enumerate body cols 0 fig) = Inr (charted g cols)"
proof -
  define r where "r = math_ceil_half (length cols)"
  define xs0 where "xs0 = replicate (r * 2) new_axes"
  define fig0 where "fig0 = \<lparr>nrows = r, ncols = 2, axs = xs0, tight = False\<rparr>"
  have n: "0 < length cols" using ne by simp
  have len0: "length xs0 = r * 2" by (simp add: xs0_def)
  have new0: "\<And>j. j < length xs0 \<Longrightarrow> xs0 ! j = new_axes" by (simp add: xs0_def)
  have nr: "length cols \<le> r * 2" unfolding r_def by (rule ceil_half_bounds)
  have sub: "subplots r 2 = Inr fig0"
    using n by (simp add: subplots_ok ceil_half_pos r_def fig0_def xs0_def)
  have "for_enumerate body cols 0 fig0 = Inr (fig0\<lparr>axs := upd_all g cols 0 (axs fig0)\<rparr>)"
  proof (rule for_enumerate_upd [where Q = "\<lambda>a. a = new_axes"])
    show "\<And>i col fig. 0 \<le> i \<Longrightarrow> i < 0 + length cols \<Longrightarrow> i < length (axs fig) \<Longrightarrow>
           col \<in> set cols \<Longrightarrow> axs fig ! i = new_axes \<Longrightarrow>
           body i col fig = Inr (fig\<lparr>axs := (axs fig)[i := g i col (axs fig ! i)]\<rparr>)"
      using body by simp
    show "0 + length cols \<le> length (axs fig0)" using nr by (simp add: fig0_def len0)
    show "\<And>j. 0 \<le> j \<Longrightarrow> j < length (axs fig0) \<Longrightarrow> axs fig0 ! j = new_axes"
      by (simp add: fig0_def new0)
  qed
  then have "for_enumerate body cols 0 fig0 = Inr (charted g cols)"
    by (simp add: charted_def Let_def fig0_def xs0_def r_def)
  with sub show ?thesis by (simp add: py_bind_Inr r_def)
qed

lemma charted_shape:
  "nrows (charted g cols) = math_ceil_half (length cols)"
  "ncols (charted g cols) = 2"
  "length (axs (charted g cols)) = math_ceil_half (length cols) * 2"
  "\<not> tight (charted g cols)"
  by (simp_all add: charted_def Let_def length_upd_all)

lemma charted_nth:
  assumes "j < length cols"
  shows "axs (charted g cols) ! j = g j (cols ! j) new_axes"
proof -
  define xs0 where "xs0 = replicate (math_ceil_half (length cols) * 2) new_axes"
  have len0: "length xs0 = math_ceil_half (length cols) * 2" by (simp add: xs0_def)
  have le: "length cols \<le> length xs0" using ceil_half_bounds(1) [of "length cols"] len0 by simp
  have j: "j < length xs0" using assms le by simp
  have "xs0 ! j = new_axes" using j by (simp add: xs0_def)
  then have "upd_all g cols 0 xs0 ! j = g j (cols ! j) new_axes"
    using le j assms by (subst nth_upd_all) simp_all
  then show ?thesis by (simp add: charted_def Let_def xs0_def)
qed

lemma charted_beyond:
  assumes "length cols \<le> j" "j < length (axs (charted g cols))"
  shows "axs (charted g cols) ! j = new_axes"
proof -
  define xs0 where "xs0 = replicate (math_ceil_half (length cols) * 2) new_axes"
  have len0: "length xs0 = math_ceil_half (length cols) * 2" by (simp add: xs0_def)
  have le: "length cols \<le> length xs0" using ceil_half_bounds(1) [of "length cols"] len0 by simp
  have j: "j < length xs0" using assms(2) by (simp add: charted_shape len0)
  have "xs0 ! j = new_axes" using j by (simp add: xs0_def)
  then have "upd_all g cols 0 xs0 ! j = new_axes"
    using le j assms(1) by (subst nth_upd_all) simp_all
  then show ?thesis by (simp add: charted_def Let_def xs0_def)
qed

lemma charted_last_odd:
  assumes "length cols mod 2 \<noteq> 0"
  shows "last (axs (charted g cols)) = new_axes"
proof -
  have len: "length (axs (charted g cols)) = length cols + 1"
    using ceil_half_odd [OF assms] by (simp add: charted_shape)
  then have "axs (charted g cols) \<noteq> []" by auto
  then have "last (axs (charted g cols)) = axs (charted g cols) ! length cols"
    using len by (simp add: last_conv_nth)
  also have "\<dots> = new_axes" using len by (intro charted_beyond) simp_all
  finally show ?thesis .
qed

lemma charted_last_even:
  assumes "length cols mod 2 = 0" "cols \<noteq> []"
  shows "last (axs (charted g cols)) = g (length cols - 1) (last cols) new_axes"
proof -
  have len: "length (axs (charted g cols)) = length cols"
    using ceil_half_even [OF assms(1)] by (simp add: charted_shape)
  have pos: "0 < length cols" using assms(2) by simp
  then have "axs (charted g cols) \<noteq> []" using len by auto
  then have "last (axs (charted g cols)) = axs (charted g cols) ! (length cols - 1)"
    using len by (simp add: last_conv_nth)
  also have "\<dots> = g (length cols - 1) (cols ! (length cols - 1)) new_axes"
    using pos by (intro charted_nth) simp
  finally show ?thesis using assms(2) by (simp add: last_conv_nth)
qed

lemma charted_nonempty: "cols \<noteq> [] \<Longrightarrow> axs (charted g cols) \<noteq> []"
  using ceil_half_bounds(1) [of "length cols"] charted_shape(3) [of g cols]
  by (cases "axs (charted g cols)") auto

lemma quitar_ultimo_charted:
  assumes "cols \<noteq> []"
  shows "py_bind (quitar_ultimo (length cols) (charted g cols)) tight_layout
       = Inr (finished g cols)"
proof (cases "length cols mod 2 \<noteq> 0")
  case True
  have "in_figure (last (axs (charted g cols)))"
    using charted_last_odd [OF True, of g] by (simp add: new_axes_def)
  then have "delaxes (charted g cols) (- 1)
      = Inr ((charted g cols)\<lparr>axs := (axs (charted g cols))[length (axs (charted g cols)) - 1
                 := (last (axs (charted g cols)))\<lparr>in_figure := False\<rparr>]\<rparr>)"
    using charted_nonempty [OF assms, of g] by (intro delaxes_last)
  then show ?thesis
    using True by (simp add: quitar_ultimo_def py_bind_Inr tight_layout_def finished_def Let_def)
next
  case False
  then show ?thesis
    by (simp add: quitar_ultimo_def py_bind_Inr tight_layout_def finished_def Let_def)
qed

lemma finished_shape:
  "nrows (finished g cols) = math_ceil_half (length cols)"
  "ncols (finished g cols) = 2"
  "length (axs (finished g cols)) = math_ceil_half (length cols) * 2"
  "tight (finished g cols)"
  by (simp_all add: finished_def Let_def charted_shape)

lemma finished_nth:
  assumes "j < length cols"
  shows "axs (finished g cols) ! j = g j (cols ! j) new_axes"
proof (cases "length cols mod 2 \<noteq> 0")
  case True
  then have "length (axs (charted g cols)) = length cols + 1"
    using ceil_half_odd [of "length cols"] by (simp add: charted_shape)
  then have "j \<noteq> length (axs (charted g cols)) - 1" using assms by simp
  then show ?thesis using True charted_nth [OF assms, of g] by (simp add: finished_def Let_def)
next
  case False
  then show ?thesis using charted_nth [OF assms, of g] by (simp add: finished_def Let_def)
qed

lemma finished_last_odd:
  assumes "length cols mod 2 \<noteq> 0"
  shows "last (axs (finished g cols)) = new_axes\<lparr>in_figure := False\<rparr>"
proof -
  have len: "length (axs (charted g cols)) = length cols + 1"
    using ceil_half_odd [OF assms] by (simp add: charted_shape)
  then have ne: "axs (charted g cols) \<noteq> []" by auto
  show ?thesis
    using assms ne charted_last_odd [OF assms, of g]
    by (simp add: finished_def Let_def last_conv_nth)
qed

lemma finished_even: "length cols mod 2 = 0 \<Longrightarrow> axs (finished g cols) = axs (charted g cols)"
  by (simp add: finished_def Let_def)

lemma removes_last_finished:
  assumes "cols \<noteq> []"
  shows "removes_last (charted g cols) (finished g cols) \<longleftrightarrow> odd (length cols)"
proof (cases "length cols mod 2 \<noteq> 0")
  case True
  then have o: "odd (length cols)" by presburger
  have "in_figure (last (axs (charted g cols)))"
    using charted_last_odd [OF True, of g] by (simp add: new_axes_def)
  then show ?thesis
    using True o charted_nonempty [OF assms, of g]
    by (simp add: removes_last_def finished_def Let_def)
next
  case False
  then have e: "even (length cols)" by presburger
  have same: "axs (finished g cols) = axs (charted g cols)"
    using False by (simp add: finished_even)
  have ne: "axs (charted g cols) \<noteq> []" by (rule charted_nonempty [OF assms])
  have "\<not> removes_last (charted g cols) (finished g cols)"
  proof
    assume r: "removes_last (charted g cols) (finished g cols)"
    then have inf: "in_figure (last (axs (charted g cols)))"
      and eq: "axs (charted g cols) = (axs (charted g cols))[length (axs (charted g cols)) - 1
                 := (last (axs (charted g cols)))\<lparr>in_figure := False\<rparr>]"
      using same by (simp_all add: removes_last_def)
    have "last (axs (charted g cols))
        = (axs (charted g cols))[length (axs (charted g cols)) - 1
                 := (last (axs (charted g cols)))\<lparr>in_figure := False\<rparr>]
          ! (length (axs (charted g cols)) - 1)"
      using ne eq by (simp add: last_conv_nth)
    also have "\<dots> = (last (axs (charted g cols)))\<lparr>in_figure := False\<rparr>"
      using ne by simp
    finally have "in_figure (last (axs (charted g cols))) = False"
      by (metis axes.select_convs(5) axes.surjective axes.update_convs(5))
    with inf show False by simp
  qed
  with e show ?thesis by simp
qed


section \<open>The renderers when every call succeeds\<close>

lemma count_columns_getitem:
  "count_list (columns df) col = length (getitem df col)"
  by (induction df) (auto simp: columns_def getitem_def)

lemma getitem_one:
  assumes "count_list (columns df) (name c) = 1" and "c \<in> set df"
  shows "getitem df (name c) = [c]"
proof -
  have "length (getitem df (name c)) = 1"
    using assms(1) by (simp add: count_columns_getitem)
  then obtain x where x: "getitem df (name c) = [x]"
    by (cases "getitem df (name c)") auto
  have "c \<in> set (getitem df (name c))" using assms(2) by (simp add: getitem_def)
  with x show ?thesis by simp
qed

lemma getitem_one_ex:
  assumes "count_list (columns df) col = 1"
  shows "\<exists>c. getitem df col = [c] \<and> c \<in> set df \<and> name c = col"
proof -
  have "length (getitem df col) = 1"
    using assms by (simp add: count_columns_getitem)
  then obtain x where x: "getitem df col = [x]"
    by (cases "getitem df col") auto
  then have "x \<in> set (getitem df col)" by simp
  then have "x \<in> set df \<and> name x = col" by (simp add: getitem_def)
  with x show ?thesis by blast
qed

lemma distinct_count_one: "distinct cs \<Longrightarrow> v \<in> set cs \<Longrightarrow> count_list cs v = 1"
  by (induction cs) (auto simp: count_list_0_iff)

lemma sns_draw_one:
  "i < length (axs fig) \<Longrightarrow> count_list cs x = 1 \<Longrightarrow> chart_check ch = Inr () \<Longrightarrow>
   sns_draw cs [x] ch fig (int i)
     = Inr (fig\<lparr>axs := (axs fig)[i := (axs fig ! i)\<lparr>chart := Some ch\<rparr>]\<rparr>)"
  by (rule sns_draw_nat) auto

lemma sns_draw_two:
  "i < length (axs fig) \<Longrightarrow> count_list cs x = 1 \<Longrightarrow> count_list cs y = 1 \<Longrightarrow>
   chart_check ch = Inr () \<Longrightarrow>
   sns_draw cs [x, y] ch fig (int i)
     = Inr (fig\<lparr>axs := (axs fig)[i := (axs fig ! i)\<lparr>chart := Some ch\<rparr>]\<rparr>)"
  by (rule sns_draw_nat) auto

lemma plot_numericas_body_ok:
  "i < length (axs fig) \<Longrightarrow> count_list (columns df_num) col = 1 \<Longrightarrow> 0 < nbins \<Longrightarrow>
   plot_numericas_body df_num nbins i col fig
     = Inr (fig\<lparr>axs := (axs fig)[i := hist_axes nbins i col (axs fig ! i)]\<rparr>)"
  by (simp add: plot_numericas_body_def sns_draw_one sns_draw_two on_axes_nat py_bind_Inr hist_axes_def)

lemma plot_categoricas_body_ok:
  assumes "i < length (axs fig)" "count_list (columns df) col = 1"
    "count_list (columns df_cat) col = 1"
  shows "plot_categoricas_body df df_cat i col fig
     = Inr (fig\<lparr>axs := (axs fig)[i := count_axes df i col (axs fig ! i)]\<rparr>)"
proof -
  from getitem_one_ex [OF assms(2)] obtain c where c: "getitem df col = [c]" by blast
  then have "getitem_value_counts_index df col = Inr (order_of df col)"
    by (simp add: getitem_value_counts_index_def order_of_def)
  then show ?thesis
    using assms(1,3)
    by (simp add: plot_categoricas_body_def sns_draw_one sns_draw_two on_axes_nat py_bind_Inr count_axes_def
        flat_index_nat)
qed

lemma relacion_vr_numericas_body_ok:
  "i < length (axs fig) \<Longrightarrow> count_list (columns df_num) col = 1 \<Longrightarrow>
   count_list (columns df_num) vr = 1 \<Longrightarrow> axs fig ! i = new_axes \<Longrightarrow>
   relacion_vr_numericas_body df_num vr i col fig
     = Inr (fig\<lparr>axs := (axs fig)[i := scatter_axes vr i col (axs fig ! i)]\<rparr>)"
  by (auto simp add: relacion_vr_numericas_body_def sns_draw_one sns_draw_two on_axes_nat py_bind_Inr
      scatter_axes_def delaxes_nat new_axes_def)

lemma relacion_vr_numericas_body_delete:
  "i < length (axs fig) \<Longrightarrow> axs fig ! i = new_axes \<Longrightarrow>
   relacion_vr_numericas_body df_num vr i vr fig
     = Inr (fig\<lparr>axs := (axs fig)[i := scatter_axes vr i vr (axs fig ! i)]\<rparr>)"
  by (simp add: relacion_vr_numericas_body_def scatter_axes_def delaxes_nat new_axes_def)

lemma detectar_outliers_body_ok:
  "i < length (axs fig) \<Longrightarrow> count_list (columns df_num) col = 1 \<Longrightarrow> i < n \<Longrightarrow>
   detectar_outliers_body df_num (map (\<lambda>i. Mako i n) [0..<n]) i col fig
     = Inr (fig\<lparr>axs := (axs fig)[i := box_axes n i col (axs fig ! i)]\<rparr>)"
  by (simp add: detectar_outliers_body_def sns_draw_one sns_draw_two on_axes_nat py_bind_Inr box_axes_def
      flat_index_nat list_get_def)

lemma relacion_vr_categoricas_body_ok:
  assumes "i < length (axs fig)" "groupby_mean_sorted df col vr = Inr d" "col \<noteq> vr"
  shows "relacion_vr_categoricas_body df vr i col fig
     = Inr (fig\<lparr>axs := (axs fig)[i := bar_axes vr i col (axs fig ! i)]\<rparr>)"
proof -
  have "count_list [col, vr] col = 1" "count_list [col, vr] vr = 1"
    using assms(3) by auto
  then have "sns_draw [col, vr] [col, vr] (Barplot col vr) fig (int i)
      = Inr (fig\<lparr>axs := (axs fig)[i := (axs fig ! i)\<lparr>chart := Some (Barplot col vr)\<rparr>]\<rparr>)"
    using assms(1) by (intro sns_draw_two) simp_all
  then show ?thesis
    using assms(1,2)
    by (simp add: relacion_vr_categoricas_body_def on_axes_nat py_bind_Inr bar_axes_def)
qed

subsection \<open>The five renderers\<close>

lemma renderer_from_charted:
  assumes "charts = Inr (charted g cols)" "cols \<noteq> []"
  shows "py_bind charts (\<lambda>fig. py_bind (quitar_ultimo (length cols) fig) (\<lambda>fig. tight_layout fig))
       = Inr (finished g cols)"
  using quitar_ultimo_charted [OF assms(2), of g] assms(1)
  by (simp add: py_bind_def)

lemma count_filter_le:
  "count_list (columns (filter P df)) col \<le> count_list (columns df) col"
  by (induction df) (auto simp: columns_def)

lemma count_filter_one:
  assumes "count_list (columns df) col = 1" "col \<in> set (columns (filter P df))"
  shows "count_list (columns (filter P df)) col = 1"
proof -
  have "count_list (columns (filter P df)) col \<noteq> 0"
    using assms(2) by (simp add: count_list_0_iff)
  moreover have "count_list (columns (filter P df)) col \<le> 1"
    using count_filter_le [of P df col] assms(1) by simp
  ultimately show ?thesis by simp
qed

lemma plot_numericas_charted:
  assumes "fst (separar_df df) \<noteq> []" "distinct (columns (fst (separar_df df)))" "0 < nbins"
  shows "plot_numericas_charts df nbins
       = Inr (charted (hist_axes nbins) (columns (fst (separar_df df))))"
proof -
  have ne: "columns (fst (separar_df df)) \<noteq> []"
    using assms(1) by (simp add: columns_def)
  show ?thesis
    unfolding plot_numericas_charts_def Let_def
    by (rule template_charted [OF _ ne])
       (simp add: plot_numericas_body_ok distinct_count_one assms)
qed

lemma plot_numericas_finished:
  assumes "fst (separar_df df) \<noteq> []" "distinct (columns (fst (separar_df df)))" "0 < nbins"
  shows "plot_numericas df nbins
       = Inr (finished (hist_axes nbins) (columns (fst (separar_df df))))"
proof -
  have ne: "columns (fst (separar_df df)) \<noteq> []"
    using assms(1) by (simp add: columns_def)
  show ?thesis
    unfolding plot_numericas_def Let_def
    by (rule renderer_from_charted [OF plot_numericas_charted [OF assms] ne])
qed

lemma plot_categoricas_charted:
  assumes "snd (separar_df df) \<noteq> []"
    and "\<And>col. col \<in> set (columns (snd (separar_df df))) \<Longrightarrow> count_list (columns df) col = 1"
  shows "plot_categoricas_charts df = Inr (charted (count_axes df) (columns (snd (separar_df df))))"
proof -
  have ne: "columns (snd (separar_df df)) \<noteq> []"
    using assms(1) by (simp add: columns_def)
  show ?thesis
    unfolding plot_categoricas_charts_def Let_def
  proof (rule template_charted [OF _ ne])
    fix i col and fig :: figure
    assume i: "i < length (axs fig)" and col: "col \<in> set (columns (snd (separar_df df)))"
    have 1: "count_list (columns df) col = 1" using assms(2) [OF col] .
    have 2: "count_list (columns (snd (separar_df df))) col = 1"
      using count_filter_one [OF 1, of "\<lambda>c. np_object (kind c)"] col
      by (simp add: separar_df_def select_dtypes_def)
    show "plot_categoricas_body df (snd (separar_df df)) i col fig
        = Inr (fig\<lparr>axs := (axs fig)[i := count_axes df i col (axs fig ! i)]\<rparr>)"
      using plot_categoricas_body_ok [OF i 1 2] .
  qed
qed

lemma plot_categoricas_finished:
  assumes "snd (separar_df df) \<noteq> []"
    and "\<And>col. col \<in> set (columns (snd (separar_df df))) \<Longrightarrow> count_list (columns df) col = 1"
  shows "plot_categoricas df = Inr (finished (count_axes df) (columns (snd (separar_df df))))"
proof -
  have ne: "columns (snd (separar_df df)) \<noteq> []"
    using assms(1) by (simp add: columns_def)
  show ?thesis
    unfolding plot_categoricas_def Let_def
    by (rule renderer_from_charted [OF plot_categoricas_charted [OF assms] ne])
qed

lemma detectar_outliers_charted:
  assumes "select_dtypes np_number df \<noteq> []" "distinct (columns (select_dtypes np_number df))"
  shows "detectar_outliers_charts df vr
       = Inr (charted (box_axes (length (columns (select_dtypes np_number df))))
                (columns (select_dtypes np_number df)))"
proof -
  have ne: "columns (select_dtypes np_number df) \<noteq> []"
    using assms(1) by (simp add: columns_def)
  show ?thesis
    unfolding detectar_outliers_charts_def Let_def
    by (rule template_charted [OF _ ne])
       (simp add: detectar_outliers_body_ok distinct_count_one assms)
qed

lemma detectar_outliers_finished:
  assumes "select_dtypes np_number df \<noteq> []" "distinct (columns (select_dtypes np_number df))"
  shows "detectar_outliers df vr
       = Inr (finished (box_axes (length (columns (select_dtypes np_number df))))
                (columns (select_dtypes np_number df)))"
proof -
  have ne: "columns (select_dtypes np_number df) \<noteq> []"
    using assms(1) by (simp add: columns_def)
  show ?thesis
    unfolding detectar_outliers_def Let_def
    by (rule renderer_from_charted [OF detectar_outliers_charted [OF assms] ne])
qed

lemma relacion_vr_numericas_charted:
  assumes "vr \<in> set (columns (select_dtypes np_number df))"
    "distinct (columns (select_dtypes np_number df))"
  shows "relacion_vr_numericas_charts df vr
       = Inr (charted (scatter_axes vr) (columns (select_dtypes np_number df)))"
proof -
  have ne: "columns (select_dtypes np_number df) \<noteq> []"
    using assms(1) by auto
  show ?thesis
    unfolding relacion_vr_numericas_charts_def Let_def
    by (rule template_charted [OF _ ne])
       (simp add: relacion_vr_numericas_body_ok distinct_count_one assms)
qed

lemma relacion_vr_numericas_finished:
  assumes "vr \<in> set (columns (select_dtypes np_number df))"
    "distinct (columns (select_dtypes np_number df))"
  shows "relacion_vr_numericas df vr
       = Inr (finished (scatter_axes vr) (columns (select_dtypes np_number df)))"
proof -
  have ne: "columns (select_dtypes np_number df) \<noteq> []"
    using assms(1) by auto
  show ?thesis
    unfolding relacion_vr_numericas_def Let_def
    by (rule renderer_from_charted [OF relacion_vr_numericas_charted [OF assms] ne])
qed

lemma groupby_ok:
  assumes col: "count_list (columns df) col = 1"
    and vr: "count_list (columns df) vr = 1"
    and y: "y \<in> set df" "name y = vr" "\<not> np_object (kind y)"
  shows "groupby_mean_sorted df col vr = Inr (MeanByGroup col vr)"
proof -
  from getitem_one_ex [OF col] obtain g where g: "getitem df col = [g]" by blast
  have "getitem df vr = [y]" using getitem_one [of df y] vr y(1,2) by simp
  with g show ?thesis using y(3) by (simp add: groupby_mean_sorted_def)
qed

lemma text_label_not_vr:
  assumes vr: "count_list (columns df) vr = 1"
    and y: "y \<in> set df" "name y = vr" "\<not> np_object (kind y)"
    and col: "col \<in> set (columns (select_dtypes np_object df))"
  shows "col \<noteq> vr"
proof
  assume eq: "col = vr"
  from col obtain c where c: "c \<in> set df" "np_object (kind c)" "name c = col"
    by (auto simp: columns_def select_dtypes_def)
  have "getitem df vr = [y]" using getitem_one [of df y] vr y(1,2) by simp
  moreover have "c \<in> set (getitem df vr)" using c eq by (simp add: getitem_def)
  ultimately have "c = y" by simp
  with c(2) y(3) show False by simp
qed

lemma relacion_vr_categoricas_charted:
  assumes ne: "select_dtypes np_object df \<noteq> []"
    and cols: "\<And>col. col \<in> set (columns (select_dtypes np_object df)) \<Longrightarrow>
                 count_list (columns df) col = 1"
    and vr: "count_list (columns df) vr = 1"
    and y: "y \<in> set df" "name y = vr" "\<not> np_object (kind y)"
  shows "relacion_vr_categoricas_charts df vr
       = Inr (charted (bar_axes vr) (columns (select_dtypes np_object df)))"
proof -
  have ne': "columns (select_dtypes np_object df) \<noteq> []"
    using ne by (simp add: columns_def)
  show ?thesis
    unfolding relacion_vr_categoricas_charts_def Let_def
  proof (rule template_charted [OF _ ne'])
    fix i col and fig :: figure
    assume i: "i < length (axs fig)" and col: "col \<in> set (columns (select_dtypes np_object df))"
    show "relacion_vr_categoricas_body df vr i col fig
         = Inr (fig\<lparr>axs := (axs fig)[i := bar_axes vr i col (axs fig ! i)]\<rparr>)"
      using relacion_vr_categoricas_body_ok [OF i groupby_ok [OF cols [OF col] vr y]
          text_label_not_vr [OF vr y col]] .
  qed
qed

lemma relacion_vr_categoricas_finished:
  assumes ne: "select_dtypes np_object df \<noteq> []"
    and cols: "\<And>col. col \<in> set (columns (select_dtypes np_object df)) \<Longrightarrow>
                 count_list (columns df) col = 1"
    and vr: "count_list (columns df) vr = 1"
    and y: "y \<in> set df" "name y = vr" "\<not> np_object (kind y)"
  shows "relacion_vr_categoricas df vr
       = Inr (finished (bar_axes vr) (columns (select_dtypes np_object df)))"
proof -
  have ne': "columns (select_dtypes np_object df) \<noteq> []"
    using ne by (simp add: columns_def)
  show ?thesis
    unfolding relacion_vr_categoricas_def Let_def
    by (rule renderer_from_charted [OF relacion_vr_categoricas_charted [OF assms] ne'])
qed

section \<open>The failing paths\<close>

lemma subplots_zero: "subplots 0 c = Inl (ValueError ''Number of rows must be a positive integer'')"
  by (simp add: subplots_def)

lemma ceil_half_zero: "math_ceil_half 0 = 0"
  by (simp add: math_ceil_half_eq)

lemma getitem_absent: "vr \<notin> set (columns df) \<Longrightarrow> getitem df vr = []"
  by (auto simp: getitem_def columns_def filter_empty_conv)

lemma getitem_present: "col \<in> set (columns df) \<Longrightarrow> getitem df col \<noteq> []"
  by (auto simp: getitem_def columns_def filter_empty_conv)

lemma groupby_missing_vr:
  assumes "col \<in> set (columns df)" and "vr \<notin> set (columns df)"
  shows "groupby_mean_sorted df col vr
       = Inl (if length (getitem df col) = 1 then KeyError (''Column not found: '' @ vr)
              else ValueError ''Grouper not 1-dimensional'')"
proof (cases "getitem df col")
  case Nil
  then show ?thesis using getitem_present [OF assms(1)] by simp
next
  case (Cons g gs)
  then show ?thesis
    using getitem_absent [OF assms(2)]
    by (cases gs) (simp_all add: groupby_mean_sorted_def)
qed

lemma first_iteration_fails:
  assumes "\<And>fig. body 0 c fig = Inl e"
  shows "py_bind (subplots (math_ceil_half (length (c # cs))) 2) (\<lambda>fig.
           for_enumerate body (c # cs) 0 fig) = Inl e"
proof -
  have "math_ceil_half (length (c # cs)) \<noteq> 0"
    using ceil_half_pos [of "length (c # cs)"] by simp
  then obtain fig where "subplots (math_ceil_half (length (c # cs))) 2 = Inr fig"
    by (auto simp: subplots_def)
  then show ?thesis using assms by (simp add: py_bind_Inr)
qed

lemma relacion_vr_categoricas_first:
  assumes "columns (select_dtypes np_object df) = c # cs"
    and "groupby_mean_sorted df c vr = Inl e"
  shows "relacion_vr_categoricas_charts df vr = Inl e"
    and "relacion_vr_categoricas df vr = Inl e"
proof -
  have "\<And>fig. relacion_vr_categoricas_body df vr 0 c fig = Inl e"
    using assms(2) by (simp add: relacion_vr_categoricas_body_def py_bind_Inl)
  then show 1: "relacion_vr_categoricas_charts df vr = Inl e"
    unfolding relacion_vr_categoricas_charts_def Let_def assms(1)
    by (rule first_iteration_fails)
  then show "relacion_vr_categoricas df vr = Inl e"
    by (simp add: relacion_vr_categoricas_def Let_def py_bind_Inl)
qed


section \<open>Facts about the classifier\<close>

lemma separar_df_fst: "fst (separar_df df) = filter (\<lambda>c. np_number (kind c)) df"
  by (simp add: separar_df_def select_dtypes_def)

lemma separar_df_snd: "snd (separar_df df) = filter (\<lambda>c. np_object (kind c)) df"
  by (simp add: separar_df_def select_dtypes_def)

lemma number_not_object: "np_number k \<Longrightarrow> \<not> np_object k"
  by (cases k) simp_all

lemma names_disjoint_iff:
  "set (columns (fst (separar_df df))) \<inter> set (columns (snd (separar_df df))) = {}
   \<longleftrightarrow> (\<forall>a \<in> set df. \<forall>b \<in> set df.
          np_number (kind a) \<and> np_object (kind b) \<longrightarrow> name a \<noteq> name b)"
  by (auto simp: columns_def separar_df_fst separar_df_snd)

lemma name_of_other_kind:
  assumes c: "c \<in> set df" "\<not> np_number (kind c)" "\<not> np_object (kind c)"
    and one: "count_list (columns df) (name c) = 1"
  shows "name c \<notin> set (columns (fst (separar_df df))) \<union> set (columns (snd (separar_df df)))"
proof
  assume "name c \<in> set (columns (fst (separar_df df))) \<union> set (columns (snd (separar_df df)))"
  then obtain a where a: "a \<in> set df" "np_number (kind a) \<or> np_object (kind a)" "name a = name c"
    by (auto simp: columns_def separar_df_fst separar_df_snd)
  have "getitem df (name c) = [c]" using getitem_one [OF one c(1)] .
  moreover have "a \<in> set (getitem df (name c))" using a by (simp add: getitem_def)
  ultimately have "a = c" by simp
  with a(2) c(2,3) show False by simp
qed


section \<open>The example table\<close>

lemma example_table_subsets:
  "fst (separar_df example_table) \<noteq> []"
  "snd (separar_df example_table) \<noteq> []"
  "select_dtypes np_number example_table \<noteq> []"
  "select_dtypes np_object example_table \<noteq> []"
  "distinct (columns example_table)"
  "columns (fst (separar_df example_table)) = [''age'', ''income'']"
  "columns (snd (separar_df example_table)) = [''city'', ''segment'']"
  "columns (select_dtypes np_number example_table) = [''age'', ''income'']"
  "columns (select_dtypes np_object example_table) = [''city'', ''segment'']"
  "columns example_table = [''age'', ''income'', ''city'', ''segment'']"
  by (simp_all add: example_table_def separar_df_def select_dtypes_def columns_def)

lemma example_table_income:
  "\<lparr>name = ''income'', kind = Float64, vals = [N 5, N 7, N 9]\<rparr> \<in> set example_table"
  by (simp add: example_table_def)

lemma ceil_half_numerals: "math_ceil_half (Suc 0) = 1" "math_ceil_half (Suc (Suc 0)) = 1"
  "math_ceil_half (Suc (Suc (Suc 0))) = 2"
  by (simp_all add: math_ceil_half_eq)

lemma replicate_two: "replicate 2 x = [x, x]"
  by (simp add: numeral_2_eq_2)

lemma replicate_four: "replicate 4 x = [x, x, x, x]"
  by (simp add: numeral_Bit0 replicate_add numeral_2_eq_2)

lemma two_column_table_subsets:
  "columns (fst (separar_df two_column_table)) = [''age'']"
  "columns (snd (separar_df two_column_table)) = [''city'']"
  "columns (select_dtypes np_number two_column_table) = [''age'']"
  "columns (select_dtypes np_object two_column_table) = [''city'']"
  "columns two_column_table = [''age'', ''city'']"
  "fst (separar_df two_column_table) \<noteq> []"
  "snd (separar_df two_column_table) \<noteq> []"
  "select_dtypes np_number two_column_table \<noteq> []"
  "select_dtypes np_object two_column_table \<noteq> []"
  by (simp_all add: two_column_table_def separar_df_def select_dtypes_def columns_def)

lemma two_column_table_age:
  "\<lparr>name = ''age'', kind = Int64, vals = [N 30, N 41, N 52]\<rparr> \<in> set two_column_table"
  by (simp add: two_column_table_def)

section \<open>Counting the scatter charts\<close>

lemma length_filter_nth:
  "length (filter (\<lambda>j. Q (xs ! j)) [0..<length xs]) = length (filter Q xs)"
proof -
  have "filter Q xs = filter Q (map (nth xs) [0..<length xs])"
    by (simp add: map_nth)
  also have "\<dots> = map (nth xs) (filter (Q \<circ> nth xs) [0..<length xs])"
    by (simp add: filter_map)
  finally have "length (filter Q xs) = length (filter (Q \<circ> nth xs) [0..<length xs])"
    by simp
  then show ?thesis by (simp add: comp_def)
qed

lemma length_filter_neq:
  "length (filter (\<lambda>c. c \<noteq> v) xs) = length xs - count_list xs v"
proof (induction xs)
  case Nil
  then show ?case by simp
next
  case (Cons x xs)
  have "count_list xs v \<le> length xs" by (rule count_le_length)
  with Cons show ?case by auto
qed

lemma scatter_axes_new:
  "in_figure (scatter_axes vr i col new_axes) \<longleftrightarrow> col \<noteq> vr"
  "chart (scatter_axes vr i col new_axes)
     = (if col = vr then None else Some (Scatterplot col vr))"
  by (simp_all add: scatter_axes_def new_axes_def)

lemma scatter_cells_finished:
  assumes "cols \<noteq> []"
  shows "length (scatter_cells (finished (scatter_axes vr) cols))
       = length cols - count_list cols vr"
proof -
  define A where "A = axs (finished (scatter_axes vr) cols)"
  define P where "P = (\<lambda>j. in_figure (A ! j) \<and>
                 (case chart (A ! j) of Some (Scatterplot x y) \<Rightarrow> True | _ \<Rightarrow> False))"
  have cells: "scatter_cells (finished (scatter_axes vr) cols) = filter P [0..<length A]"
    by (simp add: scatter_cells_def A_def P_def)
  have inner: "\<And>j. j < length cols \<Longrightarrow> P j \<longleftrightarrow> cols ! j \<noteq> vr"
    by (simp add: P_def A_def finished_nth scatter_axes_new)
  have "filter P [0..<length A] = filter P [0..<length cols]"
  proof (cases "length cols mod 2 \<noteq> 0")
    case True
    have len: "length A = length cols + 1"
      using ceil_half_odd [OF True] by (simp add: A_def finished_shape)
    then have "A \<noteq> []" by auto
    then have "A ! length cols = last A" using len by (simp add: last_conv_nth)
    then have "\<not> P (length cols)"
      using finished_last_odd [OF True, of "scatter_axes vr"] by (simp add: P_def A_def)
    then show ?thesis using len by simp
  next
    case False
    then have "length A = length cols"
      using ceil_half_even [of "length cols"] by (simp add: A_def finished_shape)
    then show ?thesis by simp
  qed
  also have "\<dots> = filter (\<lambda>j. cols ! j \<noteq> vr) [0..<length cols]"
    using inner by (intro filter_cong) simp_all
  finally have "length (filter P [0..<length A]) = length (filter (\<lambda>c. c \<noteq> vr) cols)"
    using length_filter_nth [of "\<lambda>c. c \<noteq> vr" cols] by simp
  then show ?thesis by (simp add: cells length_filter_neq)
qed


section \<open>The order of the bars of a count plot\<close>

lemma value_counts_sorted:
  "sorted_wrt (\<lambda>a b. frequency xs b \<le> frequency xs a) (value_counts_index xs)"
proof -
  define vs where "vs = filter (\<lambda>v. v \<noteq> NaN) xs"
  define key where "key = (\<lambda>v. - int (count_list vs v))"
  have vci: "value_counts_index xs = sort_key key (rev (remdups (rev vs)))"
    by (simp add: value_counts_index_def Let_def vs_def key_def)
  have "sorted (map key (sort_key key (rev (remdups (rev vs)))))"
    by (rule sorted_sort_key)
  then have "sorted_wrt (\<lambda>a b. key a \<le> key b) (sort_key key (rev (remdups (rev vs))))"
    by (simp add: sorted_map)
  moreover have "\<And>a b. key a \<le> key b \<longleftrightarrow> frequency xs b \<le> frequency xs a"
    by (simp add: key_def frequency_def vs_def)
  ultimately show ?thesis by (simp add: vci)
qed

lemma value_counts_categories:
  "set (value_counts_index xs) = {v \<in> set xs. v \<noteq> NaN}"
  "distinct (value_counts_index xs)"
  by (auto simp add: value_counts_index_def Let_def)

lemma count_axes_chart:
  "chart (count_axes df i col a) = Some (Countplot col (order_of df col))"
  by (simp add: count_axes_def)

lemma example_value_counts:
  "value_counts_index [S ''Lugo'', S ''Vigo'', S ''Vigo''] = [S ''Vigo'', S ''Lugo'']"
  "value_counts_index [S ''a'', S ''b'', NaN] = [S ''a'', S ''b'']"
  by (simp_all add: value_counts_index_def Let_def)

lemma example_frequency:
  "frequency [S ''a'', S ''b'', NaN] (S ''a'') = 1"
  "frequency [S ''a'', S ''b'', NaN] (S ''b'') = 1"
  by (simp_all add: frequency_def)

lemma example_order_of:
  "order_of example_table ''city'' = [S ''Vigo'', S ''Lugo'']"
  "order_of example_table ''segment'' = [S ''a'', S ''b'']"
  by (simp_all add: order_of_def getitem_def example_table_def example_value_counts)


section \<open>The grid rule for every run that ends\<close>

lemma py_bind_Inr_iff: "py_bind m f = Inr y \<longleftrightarrow> (\<exists>x. m = Inr x \<and> f x = Inr y)"
  by (cases m) (simp_all add: py_bind_def)

lemma flat_index_bound: "flat_index fig i = Inr j \<Longrightarrow> j < length (axs fig)"
  by (auto simp: flat_index_def split: if_splits)

lemma on_axes_shape: "on_axes fig i f = Inr fig' \<Longrightarrow> grid_shape fig' = grid_shape fig"
  by (auto simp: on_axes_def py_bind_Inr_iff grid_shape_def)

lemma sns_draw_shape: "sns_draw cs vs ch fig i = Inr fig' \<Longrightarrow> grid_shape fig' = grid_shape fig"
  by (auto simp: sns_draw_def py_bind_Inr_iff grid_shape_def)

lemma delaxes_shape: "delaxes fig i = Inr fig' \<Longrightarrow> grid_shape fig' = grid_shape fig"
  by (auto simp: delaxes_def py_bind_Inr_iff grid_shape_def split: if_splits)

lemma plot_numericas_body_shape:
  "plot_numericas_body df_num nbins i col fig = Inr fig' \<Longrightarrow> grid_shape fig' = grid_shape fig"
  by (auto simp: plot_numericas_body_def py_bind_Inr_iff dest!: on_axes_shape sns_draw_shape)

lemma plot_categoricas_body_shape:
  "plot_categoricas_body df df_cat i col fig = Inr fig' \<Longrightarrow> grid_shape fig' = grid_shape fig"
  by (auto simp: plot_categoricas_body_def py_bind_Inr_iff dest!: on_axes_shape sns_draw_shape)

lemma relacion_vr_categoricas_body_shape:
  "relacion_vr_categoricas_body df vr i col fig = Inr fig' \<Longrightarrow> grid_shape fig' = grid_shape fig"
  by (auto simp: relacion_vr_categoricas_body_def py_bind_Inr_iff
      dest!: on_axes_shape sns_draw_shape)

lemma relacion_vr_numericas_body_shape:
  "relacion_vr_numericas_body df_num vr i col fig = Inr fig' \<Longrightarrow> grid_shape fig' = grid_shape fig"
  by (auto simp: relacion_vr_numericas_body_def py_bind_Inr_iff split: if_splits
      dest!: on_axes_shape sns_draw_shape delaxes_shape)

lemma detectar_outliers_body_shape:
  "detectar_outliers_body df_num cl i col fig = Inr fig' \<Longrightarrow> grid_shape fig' = grid_shape fig"
  by (auto simp: detectar_outliers_body_def py_bind_Inr_iff dest!: on_axes_shape sns_draw_shape)

lemma for_enumerate_shape:
  assumes "for_enumerate body cs i fig = Inr fig'"
    and "\<And>i c fig fig'. body i c fig = Inr fig' \<Longrightarrow> grid_shape fig' = grid_shape fig"
  shows "grid_shape fig' = grid_shape fig"
  using assms
proof (induction cs arbitrary: i fig)
  case Nil
  then show ?case by simp
next
  case (Cons c cs)
  from Cons.prems(1) obtain fig1 where b: "body i c fig = Inr fig1"
    and r: "for_enumerate body cs (Suc i) fig1 = Inr fig'"
    by (auto split: sum.splits)
  have "grid_shape fig' = grid_shape fig1" using Cons.IH [OF r Cons.prems(2)] .
  also have "\<dots> = grid_shape fig" using Cons.prems(2) [OF b] .
  finally show ?case .
qed

lemma subplots_planned:
  "subplots (math_ceil_half n) 2 = Inr fig \<Longrightarrow>
   grid_shape fig = (math_ceil_half n, 2, math_ceil_half n * 2)"
  by (auto simp: subplots_def grid_shape_def split: if_splits)

lemma charts_planned:
  assumes "py_bind (subplots (math_ceil_half n) 2) (\<lambda>fig. for_enumerate body cs 0 fig) = Inr before"
    and "\<And>i c fig fig'. body i c fig = Inr fig' \<Longrightarrow> grid_shape fig' = grid_shape fig"
  shows "planned_grid n before"
proof -
  from assms(1) obtain fig0 where s: "subplots (math_ceil_half n) 2 = Inr fig0"
    and l: "for_enumerate body cs 0 fig0 = Inr before"
    by (auto simp: py_bind_Inr_iff)
  have "grid_shape before = grid_shape fig0" using for_enumerate_shape [OF l assms(2)] .
  also have "\<dots> = (math_ceil_half n, 2, math_ceil_half n * 2)" using subplots_planned [OF s] .
  finally show ?thesis by (simp add: grid_shape_def planned_grid_def)
qed

lemma not_removes_last_same: "axs after = axs before \<Longrightarrow> \<not> removes_last before after"
proof
  assume same: "axs after = axs before" and r: "removes_last before after"
  then have ne: "axs before \<noteq> []" and inf: "in_figure (last (axs before))"
    and eq: "axs before = (axs before)[length (axs before) - 1
                 := (last (axs before))\<lparr>in_figure := False\<rparr>]"
    by (simp_all add: removes_last_def)
  have "last (axs before)
      = (axs before)[length (axs before) - 1 := (last (axs before))\<lparr>in_figure := False\<rparr>]
          ! (length (axs before) - 1)"
    using ne eq by (simp add: last_conv_nth)
  also have "\<dots> = (last (axs before))\<lparr>in_figure := False\<rparr>"
    using ne by simp
  finally have "in_figure (last (axs before)) = in_figure ((last (axs before))\<lparr>in_figure := False\<rparr>)"
    by simp
  with inf show False by simp
qed

lemma cleanup_rule:
  assumes charts: "charts = Inr before" and p: "planned_grid n before"
    and res: "py_bind charts (\<lambda>fig. py_bind (quitar_ultimo n fig) (\<lambda>fig. tight_layout fig))
            = Inr after"
  shows "grid_rule n charts (Inr after)"
proof -
  from res charts obtain mid where q: "quitar_ultimo n before = Inr mid"
    and t: "after = mid\<lparr>tight := True\<rparr>"
    by (auto simp: py_bind_Inr_iff tight_layout_def)
  show ?thesis
  proof (cases "n mod 2 \<noteq> 0")
    case True
    then have o: "odd n" by presburger
    from q True have d: "delaxes before (- 1) = Inr mid" by (simp add: quitar_ultimo_def)
    then obtain j where j: "flat_index before (- 1) = Inr j"
      and inf: "in_figure (axs before ! j)"
      and mid: "mid = before\<lparr>axs := (axs before)[j := (axs before ! j)\<lparr>in_figure := False\<rparr>]\<rparr>"
      by (auto simp: delaxes_def py_bind_Inr_iff split: if_splits)
    have ne: "axs before \<noteq> []" using flat_index_bound [OF j] by auto
    then have jl: "j = length (axs before) - 1" using j by (simp add: flat_index_last)
    have r: "removes_last before after"
      using ne inf jl mid t by (simp add: removes_last_def last_conv_nth)
    have "planned_grid n after" using p mid t by (simp add: planned_grid_def)
    with r o p charts show ?thesis by (auto simp: grid_rule_def)
  next
    case False
    then have e: "even n" by presburger
    from q False have "mid = before" by (simp add: quitar_ultimo_def)
    then have same: "axs after = axs before" and "planned_grid n after"
      using t p by (simp_all add: planned_grid_def)
    with e p charts not_removes_last_same [OF same] show ?thesis
      by (auto simp: grid_rule_def)
  qed
qed

lemma renderer_grid_rule:
  assumes ch: "charts = py_bind (subplots (math_ceil_half n) 2) (\<lambda>fig. for_enumerate body cs 0 fig)"
    and sh: "\<And>i c fig fig'. body i c fig = Inr fig' \<Longrightarrow> grid_shape fig' = grid_shape fig"
    and res: "py_bind charts (\<lambda>fig. py_bind (quitar_ultimo n fig) (\<lambda>fig. tight_layout fig))
            = Inr after"
  shows "grid_rule n charts (Inr after)"
proof -
  from res obtain before where b: "charts = Inr before" by (auto simp: py_bind_Inr_iff)
  have "planned_grid n before" using charts_planned [OF b [unfolded ch] sh] .
  then show ?thesis using cleanup_rule [OF b _ res] by simp
qed


subsection \<open>The five renderers\<close>

lemma plot_numericas_grid_rule:
  assumes "plot_numericas df nbins = Inr after"
  shows "grid_rule (length (fst (separar_df df))) (plot_numericas_charts df nbins)
           (plot_numericas df nbins)"
proof -
  have l: "length (columns (fst (separar_df df))) = length (fst (separar_df df))"
    by (simp add: columns_def)
  have "grid_rule (length (columns (fst (separar_df df)))) (plot_numericas_charts df nbins)
          (Inr after)"
  proof (rule renderer_grid_rule)
    show "plot_numericas_charts df nbins
        = py_bind (subplots (math_ceil_half (length (columns (fst (separar_df df))))) 2)
            (\<lambda>fig. for_enumerate (plot_numericas_body (fst (separar_df df)) nbins)
                      (columns (fst (separar_df df))) 0 fig)"
      by (simp add: plot_numericas_charts_def Let_def)
    show "\<And>i c fig fig'. plot_numericas_body (fst (separar_df df)) nbins i c fig = Inr fig' \<Longrightarrow>
            grid_shape fig' = grid_shape fig"
      by (rule plot_numericas_body_shape)
    show "py_bind (plot_numericas_charts df nbins)
            (\<lambda>fig. py_bind (quitar_ultimo (length (columns (fst (separar_df df)))) fig)
                      (\<lambda>fig. tight_layout fig)) = Inr after"
      using assms by (simp add: plot_numericas_def Let_def)
  qed
  then show ?thesis using assms by (simp add: l)
qed

lemma plot_categoricas_grid_rule:
  assumes "plot_categoricas df = Inr after"
  shows "grid_rule (length (snd (separar_df df))) (plot_categoricas_charts df)
           (plot_categoricas df)"
proof -
  have l: "length (columns (snd (separar_df df))) = length (snd (separar_df df))"
    by (simp add: columns_def)
  have "grid_rule (length (columns (snd (separar_df df)))) (plot_categoricas_charts df)
          (Inr after)"
  proof (rule renderer_grid_rule)
    show "plot_categoricas_charts df
        = py_bind (subplots (math_ceil_half (length (columns (snd (separar_df df))))) 2)
            (\<lambda>fig. for_enumerate (plot_categoricas_body df (snd (separar_df df)))
                      (columns (snd (separar_df df))) 0 fig)"
      by (simp add: plot_categoricas_charts_def Let_def)
    show "\<And>i c fig fig'. plot_categoricas_body df (snd (separar_df df)) i c fig = Inr fig' \<Longrightarrow>
            grid_shape fig' = grid_shape fig"
      by (rule plot_categoricas_body_shape)
    show "py_bind (plot_categoricas_charts df)
            (\<lambda>fig. py_bind (quitar_ultimo (length (columns (snd (separar_df df)))) fig)
                      (\<lambda>fig. tight_layout fig)) = Inr after"
      using assms by (simp add: plot_categoricas_def Let_def)
  qed
  then show ?thesis using assms by (simp add: l)
qed

lemma relacion_vr_categoricas_grid_rule:
  assumes "relacion_vr_categoricas df vr = Inr after"
  shows "grid_rule (length (select_dtypes np_object df)) (relacion_vr_categoricas_charts df vr)
           (relacion_vr_categoricas df vr)"
proof -
  have l: "length (columns (select_dtypes np_object df)) = length (select_dtypes np_object df)"
    by (simp add: columns_def)
  have "grid_rule (length (columns (select_dtypes np_object df)))
          (relacion_vr_categoricas_charts df vr) (Inr after)"
  proof (rule renderer_grid_rule)
    show "relacion_vr_categoricas_charts df vr
        = py_bind (subplots (math_ceil_half (length (columns (select_dtypes np_object df)))) 2)
            (\<lambda>fig. for_enumerate (relacion_vr_categoricas_body df vr)
                      (columns (select_dtypes np_object df)) 0 fig)"
      by (simp add: relacion_vr_categoricas_charts_def Let_def)
    show "\<And>i c fig fig'. relacion_vr_categoricas_body df vr i c fig = Inr fig' \<Longrightarrow>
            grid_shape fig' = grid_shape fig"
      by (rule relacion_vr_categoricas_body_shape)
    show "py_bind (relacion_vr_categoricas_charts df vr)
            (\<lambda>fig. py_bind (quitar_ultimo (length (columns (select_dtypes np_object df))) fig)
                      (\<lambda>fig. tight_layout fig)) = Inr after"
      using assms by (simp add: relacion_vr_categoricas_def Let_def)
  qed
  then show ?thesis using assms by (simp add: l)
qed

lemma relacion_vr_numericas_grid_rule:
  assumes "relacion_vr_numericas df vr = Inr after"
  shows "grid_rule (length (select_dtypes np_number df)) (relacion_vr_numericas_charts df vr)
           (relacion_vr_numericas df vr)"
proof -
  have l: "length (columns (select_dtypes np_number df)) = length (select_dtypes np_number df)"
    by (simp add: columns_def)
  have "grid_rule (length (columns (select_dtypes np_number df)))
          (relacion_vr_numericas_charts df vr) (Inr after)"
  proof (rule renderer_grid_rule)
    show "relacion_vr_numericas_charts df vr
        = py_bind (subplots (math_ceil_half (length (columns (select_dtypes np_number df)))) 2)
            (\<lambda>fig. for_enumerate (relacion_vr_numericas_body (select_dtypes np_number df) vr)
                      (columns (select_dtypes np_number df)) 0 fig)"
      by (simp add: relacion_vr_numericas_charts_def Let_def)
    show "\<And>i c fig fig'. relacion_vr_numericas_body (select_dtypes np_number df) vr i c fig
              = Inr fig' \<Longrightarrow> grid_shape fig' = grid_shape fig"
      by (rule relacion_vr_numericas_body_shape)
    show "py_bind (relacion_vr_numericas_charts df vr)
            (\<lambda>fig. py_bind (quitar_ultimo (length (columns (select_dtypes np_number df))) fig)
                      (\<lambda>fig. tight_layout fig)) = Inr after"
      using assms by (simp add: relacion_vr_numericas_def Let_def)
  qed
  then show ?thesis using assms by (simp add: l)
qed

lemma detectar_outliers_grid_rule:
  assumes "detectar_outliers df vr = Inr after"
  shows "grid_rule (length (select_dtypes np_number df)) (detectar_outliers_charts df vr)
           (detectar_outliers df vr)"
proof -
  have l: "length (columns (select_dtypes np_number df)) = length (select_dtypes np_number df)"
    by (simp add: columns_def)
  have "grid_rule (length (columns (select_dtypes np_number df)))
          (detectar_outliers_charts df vr) (Inr after)"
  proof (rule renderer_grid_rule)
    show "detectar_outliers_charts df vr
        = py_bind (subplots (math_ceil_half (length (columns (select_dtypes np_number df)))) 2)
            (\<lambda>fig. for_enumerate
                      (detectar_outliers_body (select_dtypes np_number df)
                         (map (\<lambda>i. Mako i (length (columns (select_dtypes np_number df))))
                            [0..<length (columns (select_dtypes np_number df))]))
                      (columns (select_dtypes np_number df)) 0 fig)"
      by (simp add: detectar_outliers_charts_def Let_def)
    show "\<And>i c fig fig'. detectar_outliers_body (select_dtypes np_number df)
                         (map (\<lambda>i. Mako i (length (columns (select_dtypes np_number df))))
                            [0..<length (columns (select_dtypes np_number df))]) i c fig
              = Inr fig' \<Longrightarrow> grid_shape fig' = grid_shape fig"
      by (rule detectar_outliers_body_shape)
    show "py_bind (detectar_outliers_charts df vr)
            (\<lambda>fig. py_bind (quitar_ultimo (length (columns (select_dtypes np_number df))) fig)
                      (\<lambda>fig. tight_layout fig)) = Inr after"
      using assms by (simp add: detectar_outliers_def Let_def)
  qed
  then show ?thesis using assms by (simp add: l)
qed


section \<open>Every index of a loop is available\<close>

lemma for_enumerate_append:
  "for_enumerate body (xs @ ys) i s
     = py_bind (for_enumerate body xs i s) (\<lambda>s'. for_enumerate body ys (i + length xs) s')"
  by (induction xs arbitrary: i s) (simp_all add: py_bind_def split: sum.splits)

lemma for_enumerate_prefix:
  "k \<le> length cols \<Longrightarrow>
   for_enumerate body cols 0 s
     = py_bind (for_enumerate body (take k cols) 0 s) (\<lambda>s'. for_enumerate body (drop k cols) k s')"
  using for_enumerate_append [of body "take k cols" "drop k cols" 0 s] by simp

lemma flat_index_int: "flat_index fig (int i) = Inr j \<Longrightarrow> j = i \<and> i < length (axs fig)"
  by (auto simp: flat_index_def split: if_splits)

lemma only_at_refl: "only_at i fig fig"
  by (simp add: only_at_def)

lemma only_at_trans: "only_at i a b \<Longrightarrow> only_at i b c \<Longrightarrow> only_at i a c"
  by (simp add: only_at_def)

lemma on_axes_only_at: "on_axes fig (int i) f = Inr fig' \<Longrightarrow> only_at i fig fig'"
  by (auto simp: on_axes_def py_bind_Inr_iff only_at_def dest!: flat_index_int)

lemma sns_draw_only_at: "sns_draw cs vs ch fig (int i) = Inr fig' \<Longrightarrow> only_at i fig fig'"
  by (auto simp: sns_draw_def py_bind_Inr_iff only_at_def dest!: flat_index_int)

lemma delaxes_only_at: "delaxes fig (int i) = Inr fig' \<Longrightarrow> only_at i fig fig'"
  by (auto simp: delaxes_def py_bind_Inr_iff only_at_def split: if_splits dest!: flat_index_int)

lemma plot_numericas_body_only_at:
  "plot_numericas_body df_num nbins i col fig = Inr fig' \<Longrightarrow> only_at i fig fig'"
  by (auto simp: plot_numericas_body_def py_bind_Inr_iff
      dest!: on_axes_only_at sns_draw_only_at intro: only_at_trans)

lemma plot_categoricas_body_only_at:
  "plot_categoricas_body df df_cat i col fig = Inr fig' \<Longrightarrow> only_at i fig fig'"
  by (auto simp: plot_categoricas_body_def py_bind_Inr_iff
      dest!: on_axes_only_at sns_draw_only_at intro: only_at_trans)

lemma relacion_vr_categoricas_body_only_at:
  "relacion_vr_categoricas_body df vr i col fig = Inr fig' \<Longrightarrow> only_at i fig fig'"
  by (auto simp: relacion_vr_categoricas_body_def py_bind_Inr_iff
      dest!: on_axes_only_at sns_draw_only_at intro: only_at_trans)

lemma relacion_vr_numericas_body_only_at:
  "relacion_vr_numericas_body df_num vr i col fig = Inr fig' \<Longrightarrow> only_at i fig fig'"
  by (auto simp: relacion_vr_numericas_body_def py_bind_Inr_iff split: if_splits
      dest!: on_axes_only_at sns_draw_only_at delaxes_only_at intro: only_at_trans)

lemma detectar_outliers_body_only_at:
  "detectar_outliers_body df_num cl i col fig = Inr fig' \<Longrightarrow> only_at i fig fig'"
  by (auto simp: detectar_outliers_body_def py_bind_Inr_iff
      dest!: on_axes_only_at sns_draw_only_at intro: only_at_trans)

lemma py_bind_Inl_iff: "py_bind m f = Inl e \<longleftrightarrow> m = Inl e \<or> (\<exists>x. m = Inr x \<and> f x = Inl e)"
  by (cases m) (simp_all add: py_bind_def)

lemma only_at_length: "only_at i fig fig' \<Longrightarrow> length (axs fig') = length (axs fig)"
  by (simp add: only_at_def)

lemma sns_lookups_error: "sns_lookups cs vs = Inl e \<Longrightarrow> \<not> grid_error e"
  by (induction vs) (auto simp: grid_error_def split: if_splits)

lemma chart_check_error: "chart_check ch = Inl e \<Longrightarrow> \<not> grid_error e"
  by (cases ch) (auto simp: grid_error_def split: if_splits)

lemma groupby_error: "groupby_mean_sorted df col vr = Inl e \<Longrightarrow> \<not> grid_error e"
  by (auto simp: groupby_mean_sorted_def grid_error_def split: list.splits if_splits)

lemma value_counts_error: "getitem_value_counts_index df col = Inl e \<Longrightarrow> \<not> grid_error e"
  by (auto simp: getitem_value_counts_index_def grid_error_def split: list.splits)

lemma flat_index_int_iff:
  "flat_index fig (int i) = Inr j \<longleftrightarrow> j = i \<and> i < length (axs fig)"
  "flat_index fig (int i) = Inl e \<longleftrightarrow> e = IndexError \<and> length (axs fig) \<le> i"
  by (auto simp: flat_index_def)

lemma on_axes_iff:
  "on_axes fig (int i) f = Inr x
     \<longleftrightarrow> i < length (axs fig) \<and> x = fig\<lparr>axs := (axs fig)[i := f (axs fig ! i)]\<rparr>"
  "on_axes fig (int i) f = Inl e \<longleftrightarrow> e = IndexError \<and> length (axs fig) \<le> i"
  by (auto simp: on_axes_def py_bind_Inr_iff py_bind_Inl_iff flat_index_int_iff)

lemma sns_draw_iff:
  "sns_draw cs vs ch fig (int i) = Inr x
     \<longleftrightarrow> i < length (axs fig) \<and> sns_lookups cs vs = Inr () \<and> chart_check ch = Inr ()
         \<and> x = fig\<lparr>axs := (axs fig)[i := (axs fig ! i)\<lparr>chart := Some ch\<rparr>]\<rparr>"
  "sns_draw cs vs ch fig (int i) = Inl e
     \<longleftrightarrow> (e = IndexError \<and> length (axs fig) \<le> i)
         \<or> (i < length (axs fig)
             \<and> (sns_lookups cs vs = Inl e \<or> sns_lookups cs vs = Inr () \<and> chart_check ch = Inl e))"
  by (auto simp: sns_draw_def py_bind_Inr_iff py_bind_Inl_iff flat_index_int_iff)

lemma delaxes_iff:
  "delaxes fig (int i) = Inr x
     \<longleftrightarrow> i < length (axs fig) \<and> in_figure (axs fig ! i)
         \<and> x = fig\<lparr>axs := (axs fig)[i := (axs fig ! i)\<lparr>in_figure := False\<rparr>]\<rparr>"
  "delaxes fig (int i) = Inl e
     \<longleftrightarrow> (e = IndexError \<and> length (axs fig) \<le> i)
         \<or> (i < length (axs fig) \<and> \<not> in_figure (axs fig ! i) \<and> e = AxesNotInFigure)"
  by (auto simp: delaxes_def py_bind_Inr_iff py_bind_Inl_iff flat_index_int_iff)

lemma list_get_iff:
  "list_get xs i = Inr x \<longleftrightarrow> i < length xs \<and> x = xs ! i"
  "list_get xs i = Inl e \<longleftrightarrow> e = IndexError \<and> length xs \<le> i"
  by (auto simp: list_get_def)

lemma plot_numericas_body_error:
  assumes "i < length (axs fig)" and "plot_numericas_body df_num nbins i col fig = Inl e"
  shows "\<not> grid_error e"
  using assms
  by (auto simp: plot_numericas_body_def py_bind_Inl_iff on_axes_iff sns_draw_iff
      simp del: sns_lookups.simps chart_check.simps
      dest: sns_lookups_error chart_check_error)

lemma plot_categoricas_body_error:
  assumes "i < length (axs fig)" and "plot_categoricas_body df df_cat i col fig = Inl e"
  shows "\<not> grid_error e"
  using assms
  by (auto simp: plot_categoricas_body_def py_bind_Inl_iff on_axes_iff sns_draw_iff
      flat_index_int_iff simp del: sns_lookups.simps chart_check.simps
      dest: sns_lookups_error chart_check_error value_counts_error)

lemma relacion_vr_categoricas_body_error:
  assumes "i < length (axs fig)" and "relacion_vr_categoricas_body df vr i col fig = Inl e"
  shows "\<not> grid_error e"
  using assms
  by (auto simp: relacion_vr_categoricas_body_def py_bind_Inl_iff on_axes_iff sns_draw_iff
      simp del: sns_lookups.simps chart_check.simps
      dest: sns_lookups_error chart_check_error groupby_error)

lemma relacion_vr_numericas_body_error:
  assumes "i < length (axs fig)" and "in_figure (axs fig ! i)"
    and "relacion_vr_numericas_body df_num vr i col fig = Inl e"
  shows "\<not> grid_error e"
  using assms
  by (auto simp: relacion_vr_numericas_body_def py_bind_Inl_iff on_axes_iff sns_draw_iff
      delaxes_iff simp del: sns_lookups.simps chart_check.simps split: if_splits
      dest: sns_lookups_error chart_check_error)

lemma detectar_outliers_body_error:
  assumes "i < length (axs fig)" and "i < length cl"
    and "detectar_outliers_body df_num cl i col fig = Inl e"
  shows "\<not> grid_error e"
  using assms
  by (auto simp: detectar_outliers_body_def py_bind_Inl_iff on_axes_iff sns_draw_iff
      flat_index_int_iff list_get_iff simp del: sns_lookups.simps chart_check.simps
      dest: sns_lookups_error chart_check_error)

lemma subplots_untouched:
  "subplots (math_ceil_half n) 2 = Inr fig \<Longrightarrow> untouched_from n 0 fig"
  by (auto simp: subplots_def untouched_from_def planned_grid_def split: if_splits)

lemma only_at_untouched:
  assumes "untouched_from n k fig" and "only_at k fig fig'"
  shows "untouched_from n (Suc k) fig'"
  using assms by (auto simp: untouched_from_def only_at_def planned_grid_def)

lemma untouched_index:
  assumes "untouched_from n k fig" and "k < n"
  shows "k < length (axs fig)" and "axs fig ! k = new_axes"
proof -
  have "length (axs fig) = math_ceil_half n * 2"
    using assms(1) by (simp add: untouched_from_def planned_grid_def)
  then show "k < length (axs fig)" using assms(2) ceil_half_bounds(1) [of n] by simp
  then show "axs fig ! k = new_axes" using assms(1) by (simp add: untouched_from_def)
qed

lemma loop_untouched:
  assumes frame: "\<And>i c fig fig'. body i c fig = Inr fig' \<Longrightarrow> only_at i fig fig'"
    and safe: "\<And>i c fig e. i < length cs \<Longrightarrow> i < length (axs fig) \<Longrightarrow>
             in_figure (axs fig ! i) \<Longrightarrow> body i c fig = Inl e \<Longrightarrow> \<not> grid_error e"
    and init: "untouched_from n 0 fig0"
    and len: "length cs \<le> n"
  shows "case for_enumerate body cs 0 fig0 of
           Inr fig \<Rightarrow> untouched_from n (length cs) fig | Inl e \<Rightarrow> \<not> grid_error e"
proof -
  have "case for_enumerate body cs 0 fig0 of
          Inr fig \<Rightarrow> untouched_from n (0 + length cs) fig | Inl e \<Rightarrow> \<not> grid_error e"
  proof (rule for_enumerate_cases)
    show "untouched_from n 0 fig0" by fact
  next
    fix k and s :: figure
    assume k: "k < length cs" and I: "untouched_from n (0 + k) s"
    then have u: "untouched_from n k s" and kn: "k < n" using len by simp_all
    have kl: "k < length (axs s)" and new: "axs s ! k = new_axes"
      using untouched_index [OF u kn] by simp_all
    show "case body (0 + k) (cs ! k) s of
            Inr s' \<Rightarrow> untouched_from n (Suc (0 + k)) s' | Inl e \<Rightarrow> \<not> grid_error e"
    proof (cases "body k (cs ! k) s")
      case (Inl e)
      have "\<not> grid_error e"
        using safe [OF k kl _ Inl] new by (simp add: new_axes_def)
      with Inl show ?thesis by simp
    next
      case (Inr s')
      have "untouched_from n (Suc k) s'"
        using only_at_untouched [OF u frame [OF Inr]] .
      with Inr show ?thesis by simp
    qed
  qed
  then show ?thesis by (simp split: sum.splits)
qed

lemma loop_state_untouched:
  assumes frame: "\<And>i c fig fig'. body i c fig = Inr fig' \<Longrightarrow> only_at i fig fig'"
    and safe: "\<And>i c fig e. i < length cols \<Longrightarrow> i < length (axs fig) \<Longrightarrow>
             in_figure (axs fig ! i) \<Longrightarrow> body i c fig = Inl e \<Longrightarrow> \<not> grid_error e"
    and k: "k \<le> length cols"
  shows "case loop_state body cols k of
           Inr fig \<Rightarrow> untouched_from (length cols) k fig | Inl e \<Rightarrow> \<not> grid_error e"
proof (cases "subplots (math_ceil_half (length cols)) 2")
  case (Inl e)
  then have "\<not> grid_error e"
    by (auto simp: subplots_def grid_error_def split: if_splits)
  with Inl show ?thesis by (simp add: loop_state_def py_bind_Inl)
next
  case (Inr fig0)
  have "case for_enumerate body (take k cols) 0 fig0 of
          Inr fig \<Rightarrow> untouched_from (length cols) (length (take k cols)) fig
        | Inl e \<Rightarrow> \<not> grid_error e"
  proof (rule loop_untouched)
    show "\<And>i c fig fig'. body i c fig = Inr fig' \<Longrightarrow> only_at i fig fig'" by (rule frame)
    show "\<And>i c fig e. i < length (take k cols) \<Longrightarrow> i < length (axs fig) \<Longrightarrow>
             in_figure (axs fig ! i) \<Longrightarrow> body i c fig = Inl e \<Longrightarrow> \<not> grid_error e"
    proof -
      fix i c and fig :: figure and e
      assume "i < length (take k cols)" "i < length (axs fig)" "in_figure (axs fig ! i)"
        "body i c fig = Inl e"
      then show "\<not> grid_error e" using safe [of i fig c e] by simp
    qed
    show "untouched_from (length cols) 0 fig0" using subplots_untouched [OF Inr] .
    show "length (take k cols) \<le> length cols" by simp
  qed
  moreover have "length (take k cols) = k" using k by simp
  ultimately show ?thesis using Inr
    by (simp add: loop_state_def py_bind_Inr split: sum.splits)
qed

lemma untouched_available:
  assumes "untouched_from n k fig" and "k < n"
  shows "cell_available n (Inr fig) (int k)"
proof -
  have "flat_index fig (int k) = Inr k"
    using untouched_index(1) [OF assms] by (rule flat_index_nat)
  moreover have "in_figure (axs fig ! k)"
    using untouched_index(2) [OF assms] by (simp add: new_axes_def)
  moreover have "planned_grid n fig" using assms(1) by (simp add: untouched_from_def)
  ultimately show ?thesis by (simp add: cell_available_def)
qed

lemma untouched_last:
  assumes u: "untouched_from n n fig" and odd: "n mod 2 \<noteq> 0"
  shows "axs fig \<noteq> []" and "in_figure (last (axs fig))"
proof -
  have len: "length (axs fig) = n + 1"
    using u ceil_half_odd [OF odd] by (simp add: untouched_from_def planned_grid_def)
  then show ne: "axs fig \<noteq> []" by auto
  have "last (axs fig) = axs fig ! n" using ne len by (simp add: last_conv_nth)
  also have "\<dots> = new_axes" using u len by (simp add: untouched_from_def)
  finally show "in_figure (last (axs fig))" by (simp add: new_axes_def)
qed

lemma untouched_available_last:
  assumes u: "untouched_from n n fig" and odd: "n mod 2 \<noteq> 0"
  shows "cell_available n (Inr fig) (- 1)"
proof -
  have ne: "axs fig \<noteq> []" and inf: "in_figure (last (axs fig))"
    using untouched_last [OF u odd] by simp_all
  have "planned_grid n fig" using u by (simp add: untouched_from_def)
  then show ?thesis using ne inf
    by (simp add: cell_available_def flat_index_last last_conv_nth)
qed

lemma cleanup_no_grid_error:
  assumes "case charts of Inr fig \<Rightarrow> untouched_from n n fig | Inl e \<Rightarrow> \<not> grid_error e"
    and "py_bind charts (\<lambda>fig. py_bind (quitar_ultimo n fig) (\<lambda>fig. tight_layout fig)) = Inl e"
  shows "\<not> grid_error e"
proof (cases charts)
  case (Inl e')
  with assms show ?thesis by (simp add: py_bind_Inl)
next
  case (Inr fig)
  with assms(1) have u: "untouched_from n n fig" by simp
  show ?thesis
  proof (cases "n mod 2 \<noteq> 0")
    case True
    have "delaxes fig (- 1) \<noteq> Inl e"
      using untouched_last [OF u True] by (simp add: delaxes_last)
    then show ?thesis
      using assms(2) Inr True
      by (auto simp: py_bind_Inl_iff quitar_ultimo_def tight_layout_def)
  next
    case False
    then show ?thesis
      using assms(2) Inr by (auto simp: py_bind_Inl_iff quitar_ultimo_def tight_layout_def)
  qed
qed

lemma grid_indices_template:
  assumes frame: "\<And>i c fig fig'. body i c fig = Inr fig' \<Longrightarrow> only_at i fig fig'"
    and safe: "\<And>i c fig e. i < length cols \<Longrightarrow> i < length (axs fig) \<Longrightarrow>
             in_figure (axs fig ! i) \<Longrightarrow> body i c fig = Inl e \<Longrightarrow> \<not> grid_error e"
  shows "\<forall>k < length cols. cell_available (length cols) (loop_state body cols k) (int k)"
    and "odd (length cols) \<longrightarrow>
           cell_available (length cols) (loop_state body cols (length cols)) (- 1)"
    and "\<not> grid_error e \<or>
         py_bind (loop_state body cols (length cols))
           (\<lambda>fig. py_bind (quitar_ultimo (length cols) fig) (\<lambda>fig. tight_layout fig)) \<noteq> Inl e"
proof -
  have st: "\<And>k. k \<le> length cols \<Longrightarrow>
      (case loop_state body cols k of
         Inr fig \<Rightarrow> untouched_from (length cols) k fig | Inl e \<Rightarrow> \<not> grid_error e)"
    using loop_state_untouched [of body cols, OF frame safe] by simp
  show "\<forall>k < length cols. cell_available (length cols) (loop_state body cols k) (int k)"
  proof (intro allI impI)
    fix k assume k: "k < length cols"
    show "cell_available (length cols) (loop_state body cols k) (int k)"
    proof (cases "loop_state body cols k")
      case (Inl e)
      then show ?thesis by (simp add: cell_available_def)
    next
      case (Inr fig)
      with st [of k] k have "untouched_from (length cols) k fig" by simp
      then show ?thesis using untouched_available [OF _ k] Inr by simp
    qed
  qed
  show "odd (length cols) \<longrightarrow>
          cell_available (length cols) (loop_state body cols (length cols)) (- 1)"
  proof
    assume "odd (length cols)"
    then have o: "length cols mod 2 \<noteq> 0" by presburger
    show "cell_available (length cols) (loop_state body cols (length cols)) (- 1)"
    proof (cases "loop_state body cols (length cols)")
      case (Inl e)
      then show ?thesis by (simp add: cell_available_def)
    next
      case (Inr fig)
      with st [of "length cols"] have "untouched_from (length cols) (length cols) fig" by simp
      then show ?thesis using untouched_available_last [OF _ o] Inr by simp
    qed
  qed
  show "\<not> grid_error e \<or>
         py_bind (loop_state body cols (length cols))
           (\<lambda>fig. py_bind (quitar_ultimo (length cols) fig) (\<lambda>fig. tight_layout fig)) \<noteq> Inl e"
    using cleanup_no_grid_error [OF st [of "length cols"], of e] by blast
qed

lemma plot_numericas_grid_indices:
  shows "\<forall>k < length (columns (fst (separar_df df))).
           cell_available (length (columns (fst (separar_df df))))
             (loop_state (plot_numericas_body (fst (separar_df df)) nbins)
                (columns (fst (separar_df df))) k) (int k)"
    and "plot_numericas_charts df nbins
       = loop_state (plot_numericas_body (fst (separar_df df)) nbins)
           (columns (fst (separar_df df))) (length (columns (fst (separar_df df))))"
    and "odd (length (columns (fst (separar_df df)))) \<longrightarrow>
           cell_available (length (columns (fst (separar_df df)))) (plot_numericas_charts df nbins) (- 1)"
    and "plot_numericas df nbins \<noteq> Inl IndexError"
    and "plot_numericas df nbins \<noteq> Inl AxesNotInFigure"
proof -
  let ?body = "plot_numericas_body (fst (separar_df df)) nbins"
  let ?cols = "columns (fst (separar_df df))"
  have frame: "\<And>i c fig fig'. ?body i c fig = Inr fig' \<Longrightarrow> only_at i fig fig'"
    by (rule plot_numericas_body_only_at)
  have safe: "\<And>i c fig e. i < length ?cols \<Longrightarrow> i < length (axs fig) \<Longrightarrow>
             in_figure (axs fig ! i) \<Longrightarrow> ?body i c fig = Inl e \<Longrightarrow> \<not> grid_error e"
    by (rule plot_numericas_body_error)
  show link: "plot_numericas_charts df nbins = loop_state ?body ?cols (length ?cols)"
    by (simp add: plot_numericas_charts_def loop_state_def Let_def)
  have run: "plot_numericas df nbins
      = py_bind (loop_state ?body ?cols (length ?cols))
          (\<lambda>fig. py_bind (quitar_ultimo (length ?cols) fig) (\<lambda>fig. tight_layout fig))"
    by (simp add: plot_numericas_def Let_def link)
  show "\<forall>k < length ?cols. cell_available (length ?cols) (loop_state ?body ?cols k) (int k)"
    by (rule grid_indices_template(1); (erule frame | erule (3) safe))
  show "odd (length ?cols) \<longrightarrow> cell_available (length ?cols) (plot_numericas_charts df nbins) (- 1)"
    unfolding link by (rule grid_indices_template(2); (erule frame | erule (3) safe))
  show "plot_numericas df nbins \<noteq> Inl IndexError"
  proof -
    have "\<not> grid_error IndexError \<or>
        py_bind (loop_state ?body ?cols (length ?cols))
          (\<lambda>fig. py_bind (quitar_ultimo (length ?cols) fig) (\<lambda>fig. tight_layout fig))
          \<noteq> Inl IndexError"
      by (rule grid_indices_template(3); (erule frame | erule (3) safe))
    then show ?thesis by (simp add: run grid_error_def)
  qed
  show "plot_numericas df nbins \<noteq> Inl AxesNotInFigure"
  proof -
    have "\<not> grid_error AxesNotInFigure \<or>
        py_bind (loop_state ?body ?cols (length ?cols))
          (\<lambda>fig. py_bind (quitar_ultimo (length ?cols) fig) (\<lambda>fig. tight_layout fig))
          \<noteq> Inl AxesNotInFigure"
      by (rule grid_indices_template(3); (erule frame | erule (3) safe))
    then show ?thesis by (simp add: run grid_error_def)
  qed
qed

lemma plot_categoricas_grid_indices:
  shows "\<forall>k < length (columns (snd (separar_df df))).
           cell_available (length (columns (snd (separar_df df))))
             (loop_state (plot_categoricas_body df (snd (separar_df df)))
                (columns (snd (separar_df df))) k) (int k)"
    and "plot_categoricas_charts df
       = loop_state (plot_categoricas_body df (snd (separar_df df)))
           (columns (snd (separar_df df))) (length (columns (snd (separar_df df))))"
    and "odd (length (columns (snd (separar_df df)))) \<longrightarrow>
           cell_available (length (columns (snd (separar_df df)))) (plot_categoricas_charts df) (- 1)"
    and "plot_categoricas df \<noteq> Inl IndexError"
    and "plot_categoricas df \<noteq> Inl AxesNotInFigure"
proof -
  let ?body = "plot_categoricas_body df (snd (separar_df df))"
  let ?cols = "columns (snd (separar_df df))"
  have frame: "\<And>i c fig fig'. ?body i c fig = Inr fig' \<Longrightarrow> only_at i fig fig'"
    by (rule plot_categoricas_body_only_at)
  have safe: "\<And>i c fig e. i < length ?cols \<Longrightarrow> i < length (axs fig) \<Longrightarrow>
             in_figure (axs fig ! i) \<Longrightarrow> ?body i c fig = Inl e \<Longrightarrow> \<not> grid_error e"
    by (rule plot_categoricas_body_error)
  show link: "plot_categoricas_charts df = loop_state ?body ?cols (length ?cols)"
    by (simp add: plot_categoricas_charts_def loop_state_def Let_def)
  have run: "plot_categoricas df
      = py_bind (loop_state ?body ?cols (length ?cols))
          (\<lambda>fig. py_bind (quitar_ultimo (length ?cols) fig) (\<lambda>fig. tight_layout fig))"
    by (simp add: plot_categoricas_def Let_def link)
  show "\<forall>k < length ?cols. cell_available (length ?cols) (loop_state ?body ?cols k) (int k)"
    by (rule grid_indices_template(1); (erule frame | erule (3) safe))
  show "odd (length ?cols) \<longrightarrow> cell_available (length ?cols) (plot_categoricas_charts df) (- 1)"
    unfolding link by (rule grid_indices_template(2); (erule frame | erule (3) safe))
  show "plot_categoricas df \<noteq> Inl IndexError"
  proof -
    have "\<not> grid_error IndexError \<or>
        py_bind (loop_state ?body ?cols (length ?cols))
          (\<lambda>fig. py_bind (quitar_ultimo (length ?cols) fig) (\<lambda>fig. tight_layout fig))
          \<noteq> Inl IndexError"
      by (rule grid_indices_template(3); (erule frame | erule (3) safe))
    then show ?thesis by (simp add: run grid_error_def)
  qed
  show "plot_categoricas df \<noteq> Inl AxesNotInFigure"
  proof -
    have "\<not> grid_error AxesNotInFigure \<or>
        py_bind (loop_state ?body ?cols (length ?cols))
          (\<lambda>fig. py_bind (quitar_ultimo (length ?cols) fig) (\<lambda>fig. tight_layout fig))
          \<noteq> Inl AxesNotInFigure"
      by (rule grid_indices_template(3); (erule frame | erule (3) safe))
    then show ?thesis by (simp add: run grid_error_def)
  qed
qed

lemma relacion_vr_categoricas_grid_indices:
  shows "\<forall>k < length (columns (select_dtypes np_object df)).
           cell_available (length (columns (select_dtypes np_object df)))
             (loop_state (relacion_vr_categoricas_body df vr)
                (columns (select_dtypes np_object df)) k) (int k)"
    and "relacion_vr_categoricas_charts df vr
       = loop_state (relacion_vr_categoricas_body df vr)
           (columns (select_dtypes np_object df)) (length (columns (select_dtypes np_object df)))"
    and "odd (length (columns (select_dtypes np_object df))) \<longrightarrow>
           cell_available (length (columns (select_dtypes np_object df))) (relacion_vr_categoricas_charts df vr) (- 1)"
    and "relacion_vr_categoricas df vr \<noteq> Inl IndexError"
    and "relacion_vr_categoricas df vr \<noteq> Inl AxesNotInFigure"
proof -
  let ?body = "relacion_vr_categoricas_body df vr"
  let ?cols = "columns (select_dtypes np_object df)"
  have frame: "\<And>i c fig fig'. ?body i c fig = Inr fig' \<Longrightarrow> only_at i fig fig'"
    by (rule relacion_vr_categoricas_body_only_at)
  have safe: "\<And>i c fig e. i < length ?cols \<Longrightarrow> i < length (axs fig) \<Longrightarrow>
             in_figure (axs fig ! i) \<Longrightarrow> ?body i c fig = Inl e \<Longrightarrow> \<not> grid_error e"
    by (rule relacion_vr_categoricas_body_error)
  show link: "relacion_vr_categoricas_charts df vr = loop_state ?body ?cols (length ?cols)"
    by (simp add: relacion_vr_categoricas_charts_def loop_state_def Let_def)
  have run: "relacion_vr_categoricas df vr
      = py_bind (loop_state ?body ?cols (length ?cols))
          (\<lambda>fig. py_bind (quitar_ultimo (length ?cols) fig) (\<lambda>fig. tight_layout fig))"
    by (simp add: relacion_vr_categoricas_def Let_def link)
  show "\<forall>k < length ?cols. cell_available (length ?cols) (loop_state ?body ?cols k) (int k)"
    by (rule grid_indices_template(1); (erule frame | erule (3) safe))
  show "odd (length ?cols) \<longrightarrow> cell_available (length ?cols) (relacion_vr_categoricas_charts df vr) (- 1)"
    unfolding link by (rule grid_indices_template(2); (erule frame | erule (3) safe))
  show "relacion_vr_categoricas df vr \<noteq> Inl IndexError"
  proof -
    have "\<not> grid_error IndexError \<or>
        py_bind (loop_state ?body ?cols (length ?cols))
          (\<lambda>fig. py_bind (quitar_ultimo (length ?cols) fig) (\<lambda>fig. tight_layout fig))
          \<noteq> Inl IndexError"
      by (rule grid_indices_template(3); (erule frame | erule (3) safe))
    then show ?thesis by (simp add: run grid_error_def)
  qed
  show "relacion_vr_categoricas df vr \<noteq> Inl AxesNotInFigure"
  proof -
    have "\<not> grid_error AxesNotInFigure \<or>
        py_bind (loop_state ?body ?cols (length ?cols))
          (\<lambda>fig. py_bind (quitar_ultimo (length ?cols) fig) (\<lambda>fig. tight_layout fig))
          \<noteq> Inl AxesNotInFigure"
      by (rule grid_indices_template(3); (erule frame | erule (3) safe))
    then show ?thesis by (simp add: run grid_error_def)
  qed
qed

lemma relacion_vr_numericas_grid_indices:
  shows "\<forall>k < length (columns (select_dtypes np_number df)).
           cell_available (length (columns (select_dtypes np_number df)))
             (loop_state (relacion_vr_numericas_body (select_dtypes np_number df) vr)
                (columns (select_dtypes np_number df)) k) (int k)"
    and "relacion_vr_numericas_charts df vr
       = loop_state (relacion_vr_numericas_body (select_dtypes np_number df) vr)
           (columns (select_dtypes np_number df)) (length (columns (select_dtypes np_number df)))"
    and "odd (length (columns (select_dtypes np_number df))) \<longrightarrow>
           cell_available (length (columns (select_dtypes np_number df))) (relacion_vr_numericas_charts df vr) (- 1)"
    and "relacion_vr_numericas df vr \<noteq> Inl IndexError"
    and "relacion_vr_numericas df vr \<noteq> Inl AxesNotInFigure"
proof -
  let ?body = "relacion_vr_numericas_body (select_dtypes np_number df) vr"
  let ?cols = "columns (select_dtypes np_number df)"
  have frame: "\<And>i c fig fig'. ?body i c fig = Inr fig' \<Longrightarrow> only_at i fig fig'"
    by (rule relacion_vr_numericas_body_only_at)
  have safe: "\<And>i c fig e. i < length ?cols \<Longrightarrow> i < length (axs fig) \<Longrightarrow>
             in_figure (axs fig ! i) \<Longrightarrow> ?body i c fig = Inl e \<Longrightarrow> \<not> grid_error e"
    by (rule relacion_vr_numericas_body_error)
  show link: "relacion_vr_numericas_charts df vr = loop_state ?body ?cols (length ?cols)"
    by (simp add: relacion_vr_numericas_charts_def loop_state_def Let_def)
  have run: "relacion_vr_numericas df vr
      = py_bind (loop_state ?body ?cols (length ?cols))
          (\<lambda>fig. py_bind (quitar_ultimo (length ?cols) fig) (\<lambda>fig. tight_layout fig))"
    by (simp add: relacion_vr_numericas_def Let_def link)
  show "\<forall>k < length ?cols. cell_available (length ?cols) (loop_state ?body ?cols k) (int k)"
    by (rule grid_indices_template(1); (erule frame | erule (3) safe))
  show "odd (length ?cols) \<longrightarrow> cell_available (length ?cols) (relacion_vr_numericas_charts df vr) (- 1)"
    unfolding link by (rule grid_indices_template(2); (erule frame | erule (3) safe))
  show "relacion_vr_numericas df vr \<noteq> Inl IndexError"
  proof -
    have "\<not> grid_error IndexError \<or>
        py_bind (loop_state ?body ?cols (length ?cols))
          (\<lambda>fig. py_bind (quitar_ultimo (length ?cols) fig) (\<lambda>fig. tight_layout fig))
          \<noteq> Inl IndexError"
      by (rule grid_indices_template(3); (erule frame | erule (3) safe))
    then show ?thesis by (simp add: run grid_error_def)
  qed
  show "relacion_vr_numericas df vr \<noteq> Inl AxesNotInFigure"
  proof -
    have "\<not> grid_error AxesNotInFigure \<or>
        py_bind (loop_state ?body ?cols (length ?cols))
          (\<lambda>fig. py_bind (quitar_ultimo (length ?cols) fig) (\<lambda>fig. tight_layout fig))
          \<noteq> Inl AxesNotInFigure"
      by (rule grid_indices_template(3); (erule frame | erule (3) safe))
    then show ?thesis by (simp add: run grid_error_def)
  qed
qed

lemma detectar_outliers_grid_indices:
  shows "\<forall>k < length (columns (select_dtypes np_number df)).
           cell_available (length (columns (select_dtypes np_number df)))
             (loop_state (detectar_outliers_body (select_dtypes np_number df) (map (\<lambda>i. Mako i (length (columns (select_dtypes np_number df)))) [0..<length (columns (select_dtypes np_number df))]))
                (columns (select_dtypes np_number df)) k) (int k)"
    and "detectar_outliers_charts df vr
       = loop_state (detectar_outliers_body (select_dtypes np_number df) (map (\<lambda>i. Mako i (length (columns (select_dtypes np_number df)))) [0..<length (columns (select_dtypes np_number df))]))
           (columns (select_dtypes np_number df)) (length (columns (select_dtypes np_number df)))"
    and "odd (length (columns (select_dtypes np_number df))) \<longrightarrow>
           cell_available (length (columns (select_dtypes np_number df))) (detectar_outliers_charts df vr) (- 1)"
    and "detectar_outliers df vr \<noteq> Inl IndexError"
    and "detectar_outliers df vr \<noteq> Inl AxesNotInFigure"
proof -
  let ?body = "detectar_outliers_body (select_dtypes np_number df) (map (\<lambda>i. Mako i (length (columns (select_dtypes np_number df)))) [0..<length (columns (select_dtypes np_number df))])"
  let ?cols = "columns (select_dtypes np_number df)"
  have frame: "\<And>i c fig fig'. ?body i c fig = Inr fig' \<Longrightarrow> only_at i fig fig'"
    by (rule detectar_outliers_body_only_at)
  have safe: "\<And>i c fig e. i < length ?cols \<Longrightarrow> i < length (axs fig) \<Longrightarrow>
             in_figure (axs fig ! i) \<Longrightarrow> ?body i c fig = Inl e \<Longrightarrow> \<not> grid_error e"
    by (rule detectar_outliers_body_error) simp_all
  show link: "detectar_outliers_charts df vr = loop_state ?body ?cols (length ?cols)"
    by (simp add: detectar_outliers_charts_def loop_state_def Let_def)
  have run: "detectar_outliers df vr
      = py_bind (loop_state ?body ?cols (length ?cols))
          (\<lambda>fig. py_bind (quitar_ultimo (length ?cols) fig) (\<lambda>fig. tight_layout fig))"
    by (simp add: detectar_outliers_def Let_def link)
  show "\<forall>k < length ?cols. cell_available (length ?cols) (loop_state ?body ?cols k) (int k)"
    by (rule grid_indices_template(1); (erule frame | erule (3) safe))
  show "odd (length ?cols) \<longrightarrow> cell_available (length ?cols) (detectar_outliers_charts df vr) (- 1)"
    unfolding link by (rule grid_indices_template(2); (erule frame | erule (3) safe))
  show "detectar_outliers df vr \<noteq> Inl IndexError"
  proof -
    have "\<not> grid_error IndexError \<or>
        py_bind (loop_state ?body ?cols (length ?cols))
          (\<lambda>fig. py_bind (quitar_ultimo (length ?cols) fig) (\<lambda>fig. tight_layout fig))
          \<noteq> Inl IndexError"
      by (rule grid_indices_template(3); (erule frame | erule (3) safe))
    then show ?thesis by (simp add: run grid_error_def)
  qed
  show "detectar_outliers df vr \<noteq> Inl AxesNotInFigure"
  proof -
    have "\<not> grid_error AxesNotInFigure \<or>
        py_bind (loop_state ?body ?cols (length ?cols))
          (\<lambda>fig. py_bind (quitar_ultimo (length ?cols) fig) (\<lambda>fig. tight_layout fig))
          \<noteq> Inl AxesNotInFigure"
      by (rule grid_indices_template(3); (erule frame | erule (3) safe))
    then show ?thesis by (simp add: run grid_error_def)
  qed
qed

lemma loop_state_continues:
  "k \<le> length cols \<Longrightarrow>
   loop_state body cols (length cols)
     = py_bind (loop_state body cols k) (\<lambda>fig. for_enumerate body (drop k cols) k fig)"
  using for_enumerate_prefix [of k cols body]
  by (cases "subplots (math_ceil_half (length cols)) 2")
     (simp_all add: loop_state_def py_bind_def)

lemma two_column_table_runs:
  "\<exists>fig. plot_numericas_charts two_column_table 20 = Inr fig"
  "\<exists>fig. plot_categoricas_charts two_column_table = Inr fig"
  "\<exists>fig. relacion_vr_categoricas_charts two_column_table ''age'' = Inr fig"
  "\<exists>fig. relacion_vr_numericas_charts two_column_table ''age'' = Inr fig"
  "\<exists>fig. detectar_outliers_charts two_column_table ''age'' = Inr fig"
proof -
  show "\<exists>fig. plot_numericas_charts two_column_table 20 = Inr fig"
    by (simp add: plot_numericas_charted two_column_table_subsets)
  show "\<exists>fig. plot_categoricas_charts two_column_table = Inr fig"
  proof -
    have "plot_categoricas_charts two_column_table
        = Inr (charted (count_axes two_column_table) (columns (snd (separar_df two_column_table))))"
      by (rule plot_categoricas_charted) (simp_all add: two_column_table_subsets)
    then show ?thesis by simp
  qed
  have "relacion_vr_categoricas_charts two_column_table ''age''
      = Inr (charted (bar_axes ''age'') (columns (select_dtypes np_object two_column_table)))"
    by (rule relacion_vr_categoricas_charted [OF _ _ _ two_column_table_age])
       (simp_all add: two_column_table_subsets)
  then show "\<exists>fig. relacion_vr_categoricas_charts two_column_table ''age'' = Inr fig"
    by simp
  show "\<exists>fig. relacion_vr_numericas_charts two_column_table ''age'' = Inr fig"
    by (simp add: relacion_vr_numericas_charted two_column_table_subsets)
  show "\<exists>fig. detectar_outliers_charts two_column_table ''age'' = Inr fig"
    by (simp add: detectar_outliers_charted two_column_table_subsets)
qed

section \<open>The correlation matrix and its mask\<close>










section \<open>The store after the classifier\<close>


section \<open>The classifier splits the columns\<close>

text \<open>
  Claim C1, as the code has it.  For every table, \<^verbatim>\<open>separar_df\<close> returns the numeric
  columns and the text columns of the table: the two subsets share no column, the union
  of their label sets is the set of labels of the numeric and the text columns, a column
  of any other kind (boolean, timestamp) is in neither subset, and each subset keeps the
  order of the table.  The label of a column of another kind occurs in neither label set
  when no other column carries it.  The two label sets are disjoint if and only if no
  numeric column has the label of a text column; so they are for every table whose labels
  are pairwise different.
\<close>

theorem separar_df_partition:
  "set (fst (separar_df df)) = {c \<in> set df. np_number (kind c)}
   \<and> set (snd (separar_df df)) = {c \<in> set df. np_object (kind c)}
   \<and> set (fst (separar_df df)) \<inter> set (snd (separar_df df)) = {}
   \<and> set (columns (fst (separar_df df))) \<union> set (columns (snd (separar_df df)))
       = name ` {c \<in> set df. np_number (kind c) \<or> np_object (kind c)}
   \<and> (\<forall>c \<in> set df. \<not> np_number (kind c) \<and> \<not> np_object (kind c) \<longrightarrow>
         c \<notin> set (fst (separar_df df)) \<and> c \<notin> set (snd (separar_df df))
       \<and> (count_list (columns df) (name c) = 1 \<longrightarrow>
            name c \<notin> set (columns (fst (separar_df df)))
          \<and> name c \<notin> set (columns (snd (separar_df df)))))
   \<and> subseq (fst (separar_df df)) df \<and> subseq (snd (separar_df df)) df
   \<and> (set (columns (fst (separar_df df))) \<inter> set (columns (snd (separar_df df))) = {}
        \<longleftrightarrow> (\<forall>a \<in> set df. \<forall>b \<in> set df.
               np_number (kind a) \<and> np_object (kind b) \<longrightarrow> name a \<noteq> name b))"
proof -
  have 1: "set (fst (separar_df df)) = {c \<in> set df. np_number (kind c)}"
    by (auto simp: separar_df_fst)
  have 2: "set (snd (separar_df df)) = {c \<in> set df. np_object (kind c)}"
    by (auto simp: separar_df_snd)
  have 3: "set (fst (separar_df df)) \<inter> set (snd (separar_df df)) = {}"
    by (auto simp: separar_df_fst separar_df_snd number_not_object)
  have 4: "set (columns (fst (separar_df df))) \<union> set (columns (snd (separar_df df)))
       = name ` {c \<in> set df. np_number (kind c) \<or> np_object (kind c)}"
    by (auto simp: columns_def separar_df_fst separar_df_snd)
  have 5: "\<forall>c \<in> set df. \<not> np_number (kind c) \<and> \<not> np_object (kind c) \<longrightarrow>
         c \<notin> set (fst (separar_df df)) \<and> c \<notin> set (snd (separar_df df))
       \<and> (count_list (columns df) (name c) = 1 \<longrightarrow>
            name c \<notin> set (columns (fst (separar_df df)))
          \<and> name c \<notin> set (columns (snd (separar_df df))))"
  proof (intro ballI impI conjI)
    fix c assume c: "c \<in> set df" "\<not> np_number (kind c) \<and> \<not> np_object (kind c)"
    show "c \<notin> set (fst (separar_df df))" using c by (simp add: separar_df_fst)
    show "c \<notin> set (snd (separar_df df))" using c by (simp add: separar_df_snd)
    assume one: "count_list (columns df) (name c) = 1"
    show "name c \<notin> set (columns (fst (separar_df df)))"
      using name_of_other_kind [OF c(1) _ _ one] c(2) by simp
    show "name c \<notin> set (columns (snd (separar_df df)))"
      using name_of_other_kind [OF c(1) _ _ one] c(2) by simp
  qed
  have 6: "subseq (fst (separar_df df)) df \<and> subseq (snd (separar_df df)) df"
    by (simp add: separar_df_fst separar_df_snd)
  from 1 2 3 4 5 6 names_disjoint_iff [of df] show ?thesis by blast
qed

theorem separar_df_partition_witness:
  "columns (fst (separar_df example_table)) = [''age'', ''income'']
   \<and> columns (snd (separar_df example_table)) = [''city'', ''segment'']
   \<and> set (columns (fst (separar_df example_table)))
       \<inter> set (columns (snd (separar_df example_table))) = {}
   \<and> set (fst (separar_df example_table)) \<inter> set (snd (separar_df example_table)) = {}
   \<and> subseq (fst (separar_df example_table)) example_table
   \<and> subseq (snd (separar_df example_table)) example_table"
proof -
  have h: "\<forall>a \<in> set example_table. \<forall>b \<in> set example_table.
       np_number (kind a) \<and> np_object (kind b) \<longrightarrow> name a \<noteq> name b"
    by (simp add: example_table_def)
  have c: "columns (fst (separar_df example_table)) = [''age'', ''income'']"
    "columns (snd (separar_df example_table)) = [''city'', ''segment'']"
    by (simp_all add: example_table_def separar_df_def select_dtypes_def columns_def)
  from separar_df_partition [of example_table] h c show ?thesis by blast
qed

text \<open>
  Claim C1 as it is written takes the two label sets to be disjoint for every table.  A
  frame may carry one label twice; with a numeric and a text column both labelled \<^verbatim>\<open>a\<close>
  both label sets are \<open>{a}\<close>.
\<close>

theorem separar_df_duplicate_labels:
  "set (columns (fst (separar_df [\<lparr>name = ''a'', kind = Int64, vals = [N 1]\<rparr>,
                                  \<lparr>name = ''a'', kind = Object, vals = [S ''x'']\<rparr>])))
   \<inter> set (columns (snd (separar_df [\<lparr>name = ''a'', kind = Int64, vals = [N 1]\<rparr>,
                                  \<lparr>name = ''a'', kind = Object, vals = [S ''x'']\<rparr>])))
   = {''a''}"
  by (simp add: columns_def separar_df_def select_dtypes_def)


section \<open>The grid and its trailing axes\<close>

text \<open>
  Claim C2, as the code has it.  For every table and every grid renderer that runs to
  its end on it, the figure at the end of the loop and the figure at the end of the
  renderer are grids of exactly \<open>ceil(n_plots / 2)\<close> rows by two columns, and the lines
  after the loop, when all charts are drawn, remove the last axes of the grid if and only
  if \<open>n_plots\<close> is odd; when \<open>n_plots\<close> is even they change no axes.  A renderer runs to
  its end when its column subset is not empty and no call of the loop fails:
  \<^verbatim>\<open>plot_numericas\<close> when the numeric labels are pairwise different and the number of bins
  is positive; \<^verbatim>\<open>plot_categoricas\<close> when the label of every text column occurs once in
  the table; \<^verbatim>\<open>relacion_vr_categoricas\<close> when moreover \<^verbatim>\<open>vr\<close> is the label of one column
  only, which is not a text column; \<^verbatim>\<open>relacion_vr_numericas\<close> when the numeric labels are
  pairwise different and \<^verbatim>\<open>vr\<close> is one of them; \<^verbatim>\<open>detectar_outliers\<close> when the numeric
  labels are pairwise different.
\<close>

theorem grid_and_trailing_cell:
  "((\<exists>fig. plot_numericas df nbins = Inr fig) \<longrightarrow>
      grid_rule (length (fst (separar_df df))) (plot_numericas_charts df nbins)
        (plot_numericas df nbins))
 \<and> ((\<exists>fig. plot_categoricas df = Inr fig) \<longrightarrow>
      grid_rule (length (snd (separar_df df))) (plot_categoricas_charts df)
        (plot_categoricas df))
 \<and> ((\<exists>fig. relacion_vr_categoricas df vr = Inr fig) \<longrightarrow>
      grid_rule (length (select_dtypes np_object df)) (relacion_vr_categoricas_charts df vr)
        (relacion_vr_categoricas df vr))
 \<and> ((\<exists>fig. relacion_vr_numericas df vr = Inr fig) \<longrightarrow>
      grid_rule (length (select_dtypes np_number df)) (relacion_vr_numericas_charts df vr)
        (relacion_vr_numericas df vr))
 \<and> ((\<exists>fig. detectar_outliers df vr = Inr fig) \<longrightarrow>
      grid_rule (length (select_dtypes np_number df)) (detectar_outliers_charts df vr)
        (detectar_outliers df vr))
 \<and> (fst (separar_df df) \<noteq> [] \<and> distinct (columns (fst (separar_df df))) \<and> 0 < nbins \<longrightarrow>
      (\<exists>fig. plot_numericas df nbins = Inr fig))
 \<and> (snd (separar_df df) \<noteq> []
      \<and> (\<forall>col \<in> set (columns (snd (separar_df df))). count_list (columns df) col = 1) \<longrightarrow>
      (\<exists>fig. plot_categoricas df = Inr fig))
 \<and> (select_dtypes np_object df \<noteq> []
      \<and> (\<forall>col \<in> set (columns (select_dtypes np_object df)). count_list (columns df) col = 1)
      \<and> count_list (columns df) vr = 1
      \<and> (\<exists>y \<in> set df. name y = vr \<and> \<not> np_object (kind y)) \<longrightarrow>
      (\<exists>fig. relacion_vr_categoricas df vr = Inr fig))
 \<and> (vr \<in> set (columns (select_dtypes np_number df))
      \<and> distinct (columns (select_dtypes np_number df)) \<longrightarrow>
      (\<exists>fig. relacion_vr_numericas df vr = Inr fig))
 \<and> (select_dtypes np_number df \<noteq> [] \<and> distinct (columns (select_dtypes np_number df)) \<longrightarrow>
      (\<exists>fig. detectar_outliers df vr = Inr fig))"
proof (intro conjI impI)
  assume "\<exists>fig. plot_numericas df nbins = Inr fig"
  then show "grid_rule (length (fst (separar_df df))) (plot_numericas_charts df nbins)
        (plot_numericas df nbins)"
    using plot_numericas_grid_rule by blast
next
  assume "\<exists>fig. plot_categoricas df = Inr fig"
  then show "grid_rule (length (snd (separar_df df))) (plot_categoricas_charts df)
        (plot_categoricas df)"
    using plot_categoricas_grid_rule by blast
next
  assume "\<exists>fig. relacion_vr_categoricas df vr = Inr fig"
  then show "grid_rule (length (select_dtypes np_object df)) (relacion_vr_categoricas_charts df vr)
        (relacion_vr_categoricas df vr)"
    using relacion_vr_categoricas_grid_rule by blast
next
  assume "\<exists>fig. relacion_vr_numericas df vr = Inr fig"
  then show "grid_rule (length (select_dtypes np_number df)) (relacion_vr_numericas_charts df vr)
        (relacion_vr_numericas df vr)"
    using relacion_vr_numericas_grid_rule by blast
next
  assume "\<exists>fig. detectar_outliers df vr = Inr fig"
  then show "grid_rule (length (select_dtypes np_number df)) (detectar_outliers_charts df vr)
        (detectar_outliers df vr)"
    using detectar_outliers_grid_rule by blast
next
  assume "fst (separar_df df) \<noteq> [] \<and> distinct (columns (fst (separar_df df))) \<and> 0 < nbins"
  then show "\<exists>fig. plot_numericas df nbins = Inr fig"
    using plot_numericas_finished [of df nbins] by blast
next
  assume "snd (separar_df df) \<noteq> []
      \<and> (\<forall>col \<in> set (columns (snd (separar_df df))). count_list (columns df) col = 1)"
  then show "\<exists>fig. plot_categoricas df = Inr fig"
    using plot_categoricas_finished [of df] by blast
next
  assume h: "select_dtypes np_object df \<noteq> []
      \<and> (\<forall>col \<in> set (columns (select_dtypes np_object df)). count_list (columns df) col = 1)
      \<and> count_list (columns df) vr = 1
      \<and> (\<exists>y \<in> set df. name y = vr \<and> \<not> np_object (kind y))"
  then obtain y where y: "y \<in> set df" "name y = vr" "\<not> np_object (kind y)" by blast
  show "\<exists>fig. relacion_vr_categoricas df vr = Inr fig"
    using relacion_vr_categoricas_finished [of df vr y] h y by blast
next
  assume "vr \<in> set (columns (select_dtypes np_number df))
      \<and> distinct (columns (select_dtypes np_number df))"
  then show "\<exists>fig. relacion_vr_numericas df vr = Inr fig"
    using relacion_vr_numericas_finished [of vr df] by blast
next
  assume "select_dtypes np_number df \<noteq> [] \<and> distinct (columns (select_dtypes np_number df))"
  then show "\<exists>fig. detectar_outliers df vr = Inr fig"
    using detectar_outliers_finished [of df vr] by blast
qed

text \<open>
  The example table has two numeric and two text columns: every renderer runs to its end
  with an even \<open>n_plots\<close>.  The table with the columns \<^verbatim>\<open>age\<close> and \<^verbatim>\<open>city\<close> has one of each:
  every renderer runs to its end with an odd \<open>n_plots\<close>.
\<close>

theorem grid_and_trailing_cell_witness:
  "grid_rule 2 (plot_numericas_charts example_table 20) (plot_numericas example_table 20)
   \<and> grid_rule 2 (plot_categoricas_charts example_table) (plot_categoricas example_table)
   \<and> grid_rule 2 (relacion_vr_categoricas_charts example_table ''income'')
        (relacion_vr_categoricas example_table ''income'')
   \<and> grid_rule 2 (relacion_vr_numericas_charts example_table ''income'')
        (relacion_vr_numericas example_table ''income'')
   \<and> grid_rule 2 (detectar_outliers_charts example_table ''income'')
        (detectar_outliers example_table ''income'')
   \<and> grid_rule 1 (plot_numericas_charts two_column_table 20) (plot_numericas two_column_table 20)
   \<and> grid_rule 1 (plot_categoricas_charts two_column_table) (plot_categoricas two_column_table)
   \<and> grid_rule 1 (relacion_vr_categoricas_charts two_column_table ''age'')
        (relacion_vr_categoricas two_column_table ''age'')
   \<and> grid_rule 1 (relacion_vr_numericas_charts two_column_table ''age'')
        (relacion_vr_numericas two_column_table ''age'')
   \<and> grid_rule 1 (detectar_outliers_charts two_column_table ''age'')
        (detectar_outliers two_column_table ''age'')"
proof -
  have l: "length (fst (separar_df example_table)) = 2"
    "length (snd (separar_df example_table)) = 2"
    "length (select_dtypes np_number example_table) = 2"
    "length (select_dtypes np_object example_table) = 2"
    by (simp_all add: example_table_def separar_df_def select_dtypes_def)
  have h1: "fst (separar_df example_table) \<noteq> []
      \<and> distinct (columns (fst (separar_df example_table))) \<and> 0 < (20::nat)"
    by (simp add: example_table_subsets)
  have h2: "snd (separar_df example_table) \<noteq> []
      \<and> (\<forall>col \<in> set (columns (snd (separar_df example_table))).
            count_list (columns example_table) col = 1)"
    by (simp add: example_table_subsets)
  have h3: "select_dtypes np_object example_table \<noteq> []
      \<and> (\<forall>col \<in> set (columns (select_dtypes np_object example_table)).
            count_list (columns example_table) col = 1)
      \<and> count_list (columns example_table) ''income'' = 1
      \<and> (\<exists>y \<in> set example_table. name y = ''income'' \<and> \<not> np_object (kind y))"
  proof -
    have "\<exists>y \<in> set example_table. name y = ''income'' \<and> \<not> np_object (kind y)"
      by (rule bexI [OF _ example_table_income]) simp
    then show ?thesis by (simp add: example_table_subsets)
  qed
  have h4: "''income'' \<in> set (columns (select_dtypes np_number example_table))
      \<and> distinct (columns (select_dtypes np_number example_table))"
    by (simp add: example_table_subsets)
  have h5: "select_dtypes np_number example_table \<noteq> []
      \<and> distinct (columns (select_dtypes np_number example_table))"
    by (simp add: example_table_subsets)
  from grid_and_trailing_cell [of example_table 20 "''income''"] h1 h2 h3 h4 h5
  have even: "grid_rule 2 (plot_numericas_charts example_table 20) (plot_numericas example_table 20)
   \<and> grid_rule 2 (plot_categoricas_charts example_table) (plot_categoricas example_table)
   \<and> grid_rule 2 (relacion_vr_categoricas_charts example_table ''income'')
        (relacion_vr_categoricas example_table ''income'')
   \<and> grid_rule 2 (relacion_vr_numericas_charts example_table ''income'')
        (relacion_vr_numericas example_table ''income'')
   \<and> grid_rule 2 (detectar_outliers_charts example_table ''income'')
        (detectar_outliers example_table ''income'')"
    unfolding l by blast
  have m: "length (fst (separar_df two_column_table)) = 1"
    "length (snd (separar_df two_column_table)) = 1"
    "length (select_dtypes np_number two_column_table) = 1"
    "length (select_dtypes np_object two_column_table) = 1"
    by (simp_all add: two_column_table_def separar_df_def select_dtypes_def)
  have k1: "fst (separar_df two_column_table) \<noteq> []
      \<and> distinct (columns (fst (separar_df two_column_table))) \<and> 0 < (20::nat)"
    by (simp add: two_column_table_subsets)
  have k2: "snd (separar_df two_column_table) \<noteq> []
      \<and> (\<forall>col \<in> set (columns (snd (separar_df two_column_table))).
            count_list (columns two_column_table) col = 1)"
    by (simp add: two_column_table_subsets)
  have k3: "select_dtypes np_object two_column_table \<noteq> []
      \<and> (\<forall>col \<in> set (columns (select_dtypes np_object two_column_table)).
            count_list (columns two_column_table) col = 1)
      \<and> count_list (columns two_column_table) ''age'' = 1
      \<and> (\<exists>y \<in> set two_column_table. name y = ''age'' \<and> \<not> np_object (kind y))"
  proof -
    have "\<exists>y \<in> set two_column_table. name y = ''age'' \<and> \<not> np_object (kind y)"
      by (rule bexI [OF _ two_column_table_age]) simp
    then show ?thesis by (simp add: two_column_table_subsets)
  qed
  have k4: "''age'' \<in> set (columns (select_dtypes np_number two_column_table))
      \<and> distinct (columns (select_dtypes np_number two_column_table))"
    by (simp add: two_column_table_subsets)
  have k5: "select_dtypes np_number two_column_table \<noteq> []
      \<and> distinct (columns (select_dtypes np_number two_column_table))"
    by (simp add: two_column_table_subsets)
  from grid_and_trailing_cell [of two_column_table 20 "''age''"] k1 k2 k3 k4 k5
  have odd: "grid_rule 1 (plot_numericas_charts two_column_table 20)
        (plot_numericas two_column_table 20)
   \<and> grid_rule 1 (plot_categoricas_charts two_column_table) (plot_categoricas two_column_table)
   \<and> grid_rule 1 (relacion_vr_categoricas_charts two_column_table ''age'')
        (relacion_vr_categoricas two_column_table ''age'')
   \<and> grid_rule 1 (relacion_vr_numericas_charts two_column_table ''age'')
        (relacion_vr_numericas two_column_table ''age'')
   \<and> grid_rule 1 (detectar_outliers_charts two_column_table ''age'')
        (detectar_outliers two_column_table ''age'')"
    unfolding m by blast
  from even odd show ?thesis by blast
qed

text \<open>
  Claim C2 as it is written speaks of every table with \<open>n_plots \<ge> 1\<close>.  With the three
  numeric columns \<^verbatim>\<open>a\<close>, \<^verbatim>\<open>a\<close>, \<^verbatim>\<open>b\<close> the first histogram of \<^verbatim>\<open>plot_numericas\<close> fails in
  seaborn, because \<^verbatim>\<open>data['a']\<close> is a frame of two columns: the loop and the renderer end
  with the exception, and the last axes of the grid is not removed although \<open>n_plots = 3\<close>
  is odd.
\<close>

theorem plot_numericas_repeated_label:
  "length (columns (fst (separar_df
      [\<lparr>name = ''a'', kind = Int64, vals = [N 1]\<rparr>, \<lparr>name = ''a'', kind = Float64, vals = [N 2]\<rparr>,
       \<lparr>name = ''b'', kind = Int64, vals = [N 3]\<rparr>]))) = 3
   \<and> plot_numericas_charts
      [\<lparr>name = ''a'', kind = Int64, vals = [N 1]\<rparr>, \<lparr>name = ''a'', kind = Float64, vals = [N 2]\<rparr>,
       \<lparr>name = ''b'', kind = Int64, vals = [N 3]\<rparr>] 20
     = Inl (ValueError ''Data must be 1-dimensional'')
   \<and> plot_numericas
      [\<lparr>name = ''a'', kind = Int64, vals = [N 1]\<rparr>, \<lparr>name = ''a'', kind = Float64, vals = [N 2]\<rparr>,
       \<lparr>name = ''b'', kind = Int64, vals = [N 3]\<rparr>] 20
     = Inl (ValueError ''Data must be 1-dimensional'')"
  by (simp add: plot_numericas_def plot_numericas_charts_def Let_def separar_df_def
      select_dtypes_def columns_def ceil_half_numerals subplots_def replicate_four
      py_bind_def plot_numericas_body_def flat_index_def sns_draw_def)


section \<open>The response variable among the numeric columns\<close>

text \<open>
  Claim C3, as the code has it.  For every table whose numeric columns have pairwise
  different labels, and every response variable that is the label of one of them,
  \<^verbatim>\<open>relacion_vr_numericas\<close> runs to its end; the axes at the position of the response
  variable is removed from the figure and holds no chart; every other numeric column
  has, at its position, an axes in the figure with the scatter chart of that column (x)
  against the response variable (y); and exactly \<open>n_plots - 1\<close> axes of the figure hold
  a scatter chart.
\<close>

theorem response_cell_removed:
  assumes "distinct (columns (select_dtypes np_number df))"
    and "vr \<in> set (columns (select_dtypes np_number df))"
  shows "\<exists>fig. relacion_vr_numericas df vr = Inr fig
     \<and> (\<forall>j < length (columns (select_dtypes np_number df)).
           columns (select_dtypes np_number df) ! j = vr \<longrightarrow>
             \<not> in_figure (axs fig ! j) \<and> chart (axs fig ! j) = None)
     \<and> (\<forall>j < length (columns (select_dtypes np_number df)).
           columns (select_dtypes np_number df) ! j \<noteq> vr \<longrightarrow>
             in_figure (axs fig ! j)
           \<and> chart (axs fig ! j)
               = Some (Scatterplot (columns (select_dtypes np_number df) ! j) vr))
     \<and> length (scatter_cells fig) = length (columns (select_dtypes np_number df)) - 1"
proof -
  define cols where "cols = columns (select_dtypes np_number df)"
  have vr: "vr \<in> set cols" and d: "distinct cols" using assms by (simp_all add: cols_def)
  then have ne: "cols \<noteq> []" by auto
  have one: "count_list cols vr = 1" using distinct_count_one [OF d vr] .
  have fig: "relacion_vr_numericas df vr = Inr (finished (scatter_axes vr) cols)"
    using relacion_vr_numericas_finished [OF assms(2,1)] by (simp add: cols_def)
  have 1: "\<forall>j < length cols. cols ! j = vr \<longrightarrow>
             \<not> in_figure (axs (finished (scatter_axes vr) cols) ! j)
           \<and> chart (axs (finished (scatter_axes vr) cols) ! j) = None"
    by (simp add: finished_nth scatter_axes_new)
  have 2: "\<forall>j < length cols. cols ! j \<noteq> vr \<longrightarrow>
             in_figure (axs (finished (scatter_axes vr) cols) ! j)
           \<and> chart (axs (finished (scatter_axes vr) cols) ! j) = Some (Scatterplot (cols ! j) vr)"
    by (simp add: finished_nth scatter_axes_new)
  have 3: "length (scatter_cells (finished (scatter_axes vr) cols)) = length cols - 1"
    using scatter_cells_finished [OF ne, of vr] one by simp
  from fig 1 2 3 show ?thesis unfolding cols_def by blast
qed

theorem response_cell_removed_witness:
  "\<exists>fig. relacion_vr_numericas example_table ''income'' = Inr fig
        \<and> \<not> in_figure (axs fig ! 1) \<and> chart (axs fig ! 1) = None
        \<and> in_figure (axs fig ! 0) \<and> chart (axs fig ! 0) = Some (Scatterplot ''age'' ''income'')
        \<and> length (scatter_cells fig) = 1"
proof -
  have d: "distinct (columns (select_dtypes np_number example_table))"
    and v: "''income'' \<in> set (columns (select_dtypes np_number example_table))"
    by (simp_all add: example_table_subsets)
  from response_cell_removed [OF d v] obtain fig where
    fig: "relacion_vr_numericas example_table ''income'' = Inr fig"
    and rem: "\<forall>j < length (columns (select_dtypes np_number example_table)).
           columns (select_dtypes np_number example_table) ! j = ''income'' \<longrightarrow>
             \<not> in_figure (axs fig ! j) \<and> chart (axs fig ! j) = None"
    and sc: "\<forall>j < length (columns (select_dtypes np_number example_table)).
           columns (select_dtypes np_number example_table) ! j \<noteq> ''income'' \<longrightarrow>
             in_figure (axs fig ! j)
           \<and> chart (axs fig ! j)
               = Some (Scatterplot (columns (select_dtypes np_number example_table) ! j) ''income'')"
    and n: "length (scatter_cells fig)
          = length (columns (select_dtypes np_number example_table)) - 1"
    by blast
  from rem have "\<not> in_figure (axs fig ! 1) \<and> chart (axs fig ! 1) = None"
    by (simp add: example_table_subsets)
  moreover from sc have "in_figure (axs fig ! 0)
      \<and> chart (axs fig ! 0) = Some (Scatterplot ''age'' ''income'')"
    by (simp add: example_table_subsets)
  moreover from n have "length (scatter_cells fig) = 1"
    by (simp add: example_table_subsets)
  ultimately show ?thesis using fig by blast
qed

text \<open>
  Claim C3 as it is written asks only that the response variable is the label of one of
  the numeric columns.  With two numeric columns that are both labelled \<^verbatim>\<open>y\<close> and the
  response variable \<^verbatim>\<open>y\<close>, both axes are removed and no scatter chart is drawn, where
  \<open>n_plots - 1 = 1\<close>.  With the numeric columns \<^verbatim>\<open>a\<close>, \<^verbatim>\<open>a\<close>, \<^verbatim>\<open>y\<close> the first scatter
  chart fails in seaborn, because \<^verbatim>\<open>data['a']\<close> is a frame of two columns.
\<close>

theorem response_label_repeated:
  "columns (select_dtypes np_number
      [\<lparr>name = ''y'', kind = Int64, vals = [N 1]\<rparr>, \<lparr>name = ''y'', kind = Float64, vals = [N 2]\<rparr>])
     = [''y'', ''y'']
   \<and> relacion_vr_numericas
      [\<lparr>name = ''y'', kind = Int64, vals = [N 1]\<rparr>, \<lparr>name = ''y'', kind = Float64, vals = [N 2]\<rparr>]
      ''y''
     = Inr \<lparr>nrows = 1, ncols = 2,
            axs = [\<lparr>chart = None, title = None, xlabel = None, xtick_rotation = None,
                    in_figure = False\<rparr>,
                   \<lparr>chart = None, title = None, xlabel = None, xtick_rotation = None,
                    in_figure = False\<rparr>],
            tight = True\<rparr>
   \<and> scatter_cells \<lparr>nrows = 1, ncols = 2,
            axs = [\<lparr>chart = None, title = None, xlabel = None, xtick_rotation = None,
                    in_figure = False\<rparr>,
                   \<lparr>chart = None, title = None, xlabel = None, xtick_rotation = None,
                    in_figure = False\<rparr>],
            tight = True\<rparr> = []
   \<and> relacion_vr_numericas
      [\<lparr>name = ''a'', kind = Int64, vals = [N 1]\<rparr>, \<lparr>name = ''a'', kind = Float64, vals = [N 2]\<rparr>,
       \<lparr>name = ''y'', kind = Int64, vals = [N 3]\<rparr>] ''y''
     = Inl (ValueError ''Data must be 1-dimensional'')"
  by (simp add: relacion_vr_numericas_def relacion_vr_numericas_charts_def Let_def
      select_dtypes_def columns_def ceil_half_numerals subplots_def replicate_two replicate_four
      py_bind_def relacion_vr_numericas_body_def delaxes_def flat_index_def quitar_ultimo_def
      tight_layout_def new_axes_def scatter_cells_def sns_draw_def)


section \<open>Claim C4: the correlation heat map\<close>




section \<open>The bars of the categorical distributions\<close>

text \<open>
  Claim C5, as the code has it.  For every table in which the label of every text column
  occurs once, and every text column of it, \<^verbatim>\<open>plot_categoricas\<close> runs to its end and draws,
  at the position of the column, a count plot whose bars are ordered by
  \<^verbatim>\<open>df[col].value_counts().index\<close>: every category of the column that is not missing
  occurs once, and the frequencies never rise from one bar to the next.  Categories of
  equal frequency stand next to each other, so the order is descending but not strictly
  descending.
\<close>

theorem countplot_order_by_frequency:
  assumes uniq: "\<forall>col \<in> set (columns (snd (separar_df df))). count_list (columns df) col = 1"
    and j: "j < length (snd (separar_df df))"
  shows "\<exists>fig. plot_categoricas df = Inr fig
     \<and> chart (axs fig ! j)
         = Some (Countplot (name (snd (separar_df df) ! j))
                  (value_counts_index (vals (snd (separar_df df) ! j))))
     \<and> sorted_wrt (\<lambda>a b. frequency (vals (snd (separar_df df) ! j)) b
                          \<le> frequency (vals (snd (separar_df df) ! j)) a)
         (value_counts_index (vals (snd (separar_df df) ! j)))
     \<and> distinct (value_counts_index (vals (snd (separar_df df) ! j)))
     \<and> set (value_counts_index (vals (snd (separar_df df) ! j)))
         = {v \<in> set (vals (snd (separar_df df) ! j)). v \<noteq> NaN}"
proof -
  define c where "c = snd (separar_df df) ! j"
  have ne: "snd (separar_df df) \<noteq> []" using j by auto
  have cin: "c \<in> set (snd (separar_df df))" using j by (simp add: c_def)
  then have cdf: "c \<in> set df" by (simp add: separar_df_snd)
  have jc: "j < length (columns (snd (separar_df df)))" using j by (simp add: columns_def)
  have col: "columns (snd (separar_df df)) ! j = name c"
    using j by (simp add: columns_def c_def)
  have "name c \<in> set (columns (snd (separar_df df)))"
    using cin by (simp add: columns_def)
  then have one: "count_list (columns df) (name c) = 1" using uniq by blast
  have "getitem df (name c) = [c]" using getitem_one [OF one cdf] .
  then have ord: "order_of df (name c) = value_counts_index (vals c)"
    by (simp add: order_of_def)
  have fig: "plot_categoricas df = Inr (finished (count_axes df) (columns (snd (separar_df df))))"
    using plot_categoricas_finished [OF ne] uniq by blast
  have "chart (axs (finished (count_axes df) (columns (snd (separar_df df)))) ! j)
         = Some (Countplot (name c) (value_counts_index (vals c)))"
    using jc by (simp add: finished_nth count_axes_chart col ord)
  with fig show ?thesis
    using value_counts_sorted [of "vals c"] value_counts_categories [of "vals c"]
    unfolding c_def by blast
qed

theorem countplot_order_by_frequency_witness:
  "\<exists>fig. plot_categoricas example_table = Inr fig
        \<and> chart (axs fig ! 1) = Some (Countplot ''segment'' [S ''a'', S ''b''])"
proof -
  have u: "\<forall>col \<in> set (columns (snd (separar_df example_table))).
             count_list (columns example_table) col = 1"
    by (simp add: example_table_subsets)
  have l: "Suc 0 < length (snd (separar_df example_table))"
    by (simp add: example_table_def separar_df_def select_dtypes_def)
  have c: "snd (separar_df example_table) ! Suc 0
         = \<lparr>name = ''segment'', kind = Object, vals = [S ''a'', S ''b'', NaN]\<rparr>"
    by (simp add: example_table_def separar_df_def select_dtypes_def)
  from countplot_order_by_frequency [OF u l] obtain fig where
    "plot_categoricas example_table = Inr fig"
    "chart (axs fig ! Suc 0)
         = Some (Countplot (name (snd (separar_df example_table) ! Suc 0))
                  (value_counts_index (vals (snd (separar_df example_table) ! Suc 0))))"
    by blast
  then show ?thesis by (simp add: c example_value_counts)
qed

text \<open>
  Claim C5 as it is written asks for a strictly descending order, for every table.  In
  the example table the categories \<^verbatim>\<open>a\<close> and \<^verbatim>\<open>b\<close> of the column \<^verbatim>\<open>segment\<close> both occur
  once, and their bars are neighbours.  In a table with two text columns labelled \<^verbatim>\<open>a\<close>
  no bar is drawn: \<^verbatim>\<open>df['a']\<close> is a frame, and its \<^verbatim>\<open>value_counts\<close> raises.
\<close>

theorem countplot_equal_frequencies:
  "plot_categoricas example_table
     = Inr \<lparr>nrows = 1, ncols = 2,
            axs = [\<lparr>chart = Some (Countplot ''city'' [S ''Vigo'', S ''Lugo'']),
                    title = Some ''city'', xlabel = Some '''', xtick_rotation = Some 45,
                    in_figure = True\<rparr>,
                   \<lparr>chart = Some (Countplot ''segment'' [S ''a'', S ''b'']),
                    title = Some ''segment'', xlabel = Some '''', xtick_rotation = Some 45,
                    in_figure = True\<rparr>],
            tight = True\<rparr>
   \<and> frequency [S ''a'', S ''b'', NaN] (S ''a'') = 1
   \<and> frequency [S ''a'', S ''b'', NaN] (S ''b'') = 1
   \<and> plot_categoricas [\<lparr>name = ''a'', kind = Object, vals = [S ''x'']\<rparr>,
                       \<lparr>name = ''a'', kind = Object, vals = [S ''y'']\<rparr>]
     = Inl (ValueError ''Grouper not 1-dimensional'')"
proof -
  have ne: "snd (separar_df example_table) \<noteq> []" by (rule example_table_subsets)
  have u: "\<And>col. col \<in> set (columns (snd (separar_df example_table))) \<Longrightarrow>
             count_list (columns example_table) col = 1"
    by (auto simp add: example_table_subsets)
  have 1: "plot_categoricas example_table
     = Inr \<lparr>nrows = 1, ncols = 2,
            axs = [\<lparr>chart = Some (Countplot ''city'' [S ''Vigo'', S ''Lugo'']),
                    title = Some ''city'', xlabel = Some '''', xtick_rotation = Some 45,
                    in_figure = True\<rparr>,
                   \<lparr>chart = Some (Countplot ''segment'' [S ''a'', S ''b'']),
                    title = Some ''segment'', xlabel = Some '''', xtick_rotation = Some 45,
                    in_figure = True\<rparr>],
            tight = True\<rparr>"
  proof -
    have "plot_categoricas example_table
        = Inr (finished (count_axes example_table) [''city'', ''segment''])"
      using plot_categoricas_finished [OF ne u] by (simp add: example_table_subsets)
    then show ?thesis
      by (simp add: finished_def charted_def Let_def ceil_half_numerals replicate_two
          count_axes_def new_axes_def example_order_of)
  qed
  have 2: "plot_categoricas [\<lparr>name = ''a'', kind = Object, vals = [S ''x'']\<rparr>,
                       \<lparr>name = ''a'', kind = Object, vals = [S ''y'']\<rparr>]
     = Inl (ValueError ''Grouper not 1-dimensional'')"
    by (simp add: plot_categoricas_def plot_categoricas_charts_def Let_def separar_df_def
        select_dtypes_def columns_def ceil_half_numerals subplots_def replicate_two
        py_bind_def plot_categoricas_body_def flat_index_def getitem_value_counts_index_def
        getitem_def)
  from 1 2 show ?thesis by (simp add: example_frequency)
qed


section \<open>Claim C6: the grid indices\<close>

text \<open>
  Claim C6.  In every renderer, for every table, every sequential grid index that is used
  addresses a valid cell of the \<open>ceil(n_plots / 2) \<times> 2\<close> grid that has not been removed:
  when the loop comes to iteration \<open>k < n_plots\<close>, the index \<open>k\<close>, at which the iteration
  draws or, in \<^verbatim>\<open>relacion_vr_numericas\<close>, removes the cell of the response, is available
  (\<open>loop_state\<close> is the figure at that moment, and the loop of the renderer is
  \<open>loop_state\<close> at \<open>n_plots\<close>); when the loop has ended and \<open>n_plots\<close> is odd, the index
  \<open>-1\<close> of the trailing cell is available.  No renderer ends with an index out of range
  or with the removal of a cell that was removed before.
\<close>

theorem grid_indices_valid:
  "(\<forall>k < length (columns (fst (separar_df df))).
        cell_available (length (columns (fst (separar_df df))))
          (loop_state (plot_numericas_body (fst (separar_df df)) nbins)
             (columns (fst (separar_df df))) k) (int k))
   \<and> plot_numericas_charts df nbins
       = loop_state (plot_numericas_body (fst (separar_df df)) nbins)
           (columns (fst (separar_df df))) (length (columns (fst (separar_df df))))
   \<and> (odd (length (columns (fst (separar_df df)))) \<longrightarrow>
         cell_available (length (columns (fst (separar_df df)))) (plot_numericas_charts df nbins) (- 1))
   \<and> plot_numericas df nbins \<noteq> Inl IndexError
   \<and> plot_numericas df nbins \<noteq> Inl AxesNotInFigure
   \<and> (\<forall>k < length (columns (snd (separar_df df))).
        cell_available (length (columns (snd (separar_df df))))
          (loop_state (plot_categoricas_body df (snd (separar_df df)))
             (columns (snd (separar_df df))) k) (int k))
   \<and> plot_categoricas_charts df
       = loop_state (plot_categoricas_body df (snd (separar_df df)))
           (columns (snd (separar_df df))) (length (columns (snd (separar_df df))))
   \<and> (odd (length (columns (snd (separar_df df)))) \<longrightarrow>
         cell_available (length (columns (snd (separar_df df)))) (plot_categoricas_charts df) (- 1))
   \<and> plot_categoricas df \<noteq> Inl IndexError
   \<and> plot_categoricas df \<noteq> Inl AxesNotInFigure
   \<and> (\<forall>k < length (columns (select_dtypes np_object df)).
        cell_available (length (columns (select_dtypes np_object df)))
          (loop_state (relacion_vr_categoricas_body df vr)
             (columns (select_dtypes np_object df)) k) (int k))
   \<and> relacion_vr_categoricas_charts df vr
       = loop_state (relacion_vr_categoricas_body df vr)
           (columns (select_dtypes np_object df)) (length (columns (select_dtypes np_object df)))
   \<and> (odd (length (columns (select_dtypes np_object df))) \<longrightarrow>
         cell_available (length (columns (select_dtypes np_object df))) (relacion_vr_categoricas_charts df vr) (- 1))
   \<and> relacion_vr_categoricas df vr \<noteq> Inl IndexError
   \<and> relacion_vr_categoricas df vr \<noteq> Inl AxesNotInFigure
   \<and> (\<forall>k < length (columns (select_dtypes np_number df)).
        cell_available (length (columns (select_dtypes np_number df)))
          (loop_state (relacion_vr_numericas_body (select_dtypes np_number df) vr)
             (columns (select_dtypes np_number df)) k) (int k))
   \<and> relacion_vr_numericas_charts df vr
       = loop_state (relacion_vr_numericas_body (select_dtypes np_number df) vr)
           (columns (select_dtypes np_number df)) (length (columns (select_dtypes np_number df)))
   \<and> (odd (length (columns (select_dtypes np_number df))) \<longrightarrow>
         cell_available (length (columns (select_dtypes np_number df))) (relacion_vr_numericas_charts df vr) (- 1))
   \<and> relacion_vr_numericas df vr \<noteq> Inl IndexError
   \<and> relacion_vr_numericas df vr \<noteq> Inl AxesNotInFigure
   \<and> (\<forall>k < length (columns (select_dtypes np_number df)).
        cell_available (length (columns (select_dtypes np_number df)))
          (loop_state (detectar_outliers_body (select_dtypes np_number df)
              (map (\<lambda>i. Mako i (length (columns (select_dtypes np_number df))))
                 [0..<length (columns (select_dtypes np_number df))]))
             (columns (select_dtypes np_number df)) k) (int k))
   \<and> detectar_outliers_charts df vr
       = loop_state (detectar_outliers_body (select_dtypes np_number df)
              (map (\<lambda>i. Mako i (length (columns (select_dtypes np_number df))))
                 [0..<length (columns (select_dtypes np_number df))]))
           (columns (select_dtypes np_number df)) (length (columns (select_dtypes np_number df)))
   \<and> (odd (length (columns (select_dtypes np_number df))) \<longrightarrow>
         cell_available (length (columns (select_dtypes np_number df))) (detectar_outliers_charts df vr) (- 1))
   \<and> detectar_outliers df vr \<noteq> Inl IndexError
   \<and> detectar_outliers df vr \<noteq> Inl AxesNotInFigure"
  by (intro conjI plot_numericas_grid_indices plot_categoricas_grid_indices
      relacion_vr_categoricas_grid_indices relacion_vr_numericas_grid_indices
      detectar_outliers_grid_indices)

text \<open>
  The table with the numeric column \<^verbatim>\<open>age\<close> and the text column \<^verbatim>\<open>city\<close>: every renderer has
  one column to draw, so \<open>n_plots = 1\<close> is odd, every loop runs, the index \<open>0\<close> is
  available at the first iteration and the index \<open>-1\<close> after the loop.
\<close>

theorem grid_indices_valid_witness:
  "(\<exists>fig. plot_numericas_charts two_column_table 20 = Inr fig)
   \<and> cell_available 1 (loop_state (plot_numericas_body (fst (separar_df two_column_table)) 20)
        [''age''] 0) 0
   \<and> cell_available 1 (plot_numericas_charts two_column_table 20) (- 1)
   \<and> (\<exists>fig. plot_categoricas_charts two_column_table = Inr fig)
   \<and> cell_available 1
        (loop_state (plot_categoricas_body two_column_table (snd (separar_df two_column_table)))
           [''city''] 0) 0
   \<and> cell_available 1 (plot_categoricas_charts two_column_table) (- 1)
   \<and> (\<exists>fig. relacion_vr_categoricas_charts two_column_table ''age'' = Inr fig)
   \<and> cell_available 1
        (loop_state (relacion_vr_categoricas_body two_column_table ''age'') [''city''] 0) 0
   \<and> cell_available 1 (relacion_vr_categoricas_charts two_column_table ''age'') (- 1)
   \<and> (\<exists>fig. relacion_vr_numericas_charts two_column_table ''age'' = Inr fig)
   \<and> cell_available 1
        (loop_state
           (relacion_vr_numericas_body (select_dtypes np_number two_column_table) ''age'')
           [''age''] 0) 0
   \<and> cell_available 1 (relacion_vr_numericas_charts two_column_table ''age'') (- 1)
   \<and> (\<exists>fig. detectar_outliers_charts two_column_table ''age'' = Inr fig)
   \<and> cell_available 1
        (loop_state
           (detectar_outliers_body (select_dtypes np_number two_column_table) [Mako 0 1])
           [''age''] 0) 0
   \<and> cell_available 1 (detectar_outliers_charts two_column_table ''age'') (- 1)"
  using grid_indices_valid [of two_column_table 20 "''age''"] two_column_table_runs
  by (auto simp: two_column_table_subsets)

section \<open>A response variable that is not a column\<close>

text \<open>
  Claim C7, as the code has it.  For every table with at least one text column and
  every response variable that is not a column label of the table,
  \<^verbatim>\<open>relacion_vr_categoricas\<close> returns to its caller the exception that
  \<^verbatim>\<open>df.groupby(col)[vr]\<close> raises for the first text column: the \<^verbatim>\<open>KeyError\<close> of pandas,
  \<^verbatim>\<open>Column not found: vr\<close>, when the label of that column occurs once in the table, and the
  \<^verbatim>\<open>ValueError\<close> of the grouper that is not one-dimensional when the label is repeated.
  The first iteration of the loop raises it whatever the figure holds, the loop ends
  there, and the renderer returns the exception and no figure.
\<close>

theorem relacion_vr_categoricas_missing_vr:
  assumes "select_dtypes np_object df \<noteq> []" and "vr \<notin> set (columns df)"
  shows "relacion_vr_categoricas df vr
       = Inl (if length (getitem df (hd (columns (select_dtypes np_object df)))) = 1
              then KeyError (''Column not found: '' @ vr)
              else ValueError ''Grouper not 1-dimensional'')
     \<and> relacion_vr_categoricas_charts df vr = relacion_vr_categoricas df vr
     \<and> (\<forall>fig. relacion_vr_categoricas_body df vr 0
                 (hd (columns (select_dtypes np_object df))) fig
               = relacion_vr_categoricas df vr)"
proof -
  from assms(1) obtain c cs where cols: "columns (select_dtypes np_object df) = c # cs"
    by (cases "select_dtypes np_object df") (auto simp: columns_def)
  define e where "e = (if length (getitem df c) = 1
              then KeyError (''Column not found: '' @ vr)
              else ValueError ''Grouper not 1-dimensional'')"
  have "c \<in> set (columns (select_dtypes np_object df))" using cols by simp
  then have "c \<in> set (columns df)" by (auto simp: columns_def select_dtypes_def)
  then have g: "groupby_mean_sorted df c vr = Inl e"
    using groupby_missing_vr [OF _ assms(2)] by (simp add: e_def)
  have 1: "relacion_vr_categoricas df vr = Inl e"
    and 2: "relacion_vr_categoricas_charts df vr = Inl e"
    using relacion_vr_categoricas_first [OF cols g] by simp_all
  have 3: "\<forall>fig. relacion_vr_categoricas_body df vr 0 c fig = Inl e"
    using g by (simp add: relacion_vr_categoricas_body_def py_bind_Inl)
  from 1 2 3 show ?thesis by (simp add: cols e_def)
qed

theorem relacion_vr_categoricas_missing_vr_witness:
  "relacion_vr_categoricas example_table ''sales'' = Inl (KeyError ''Column not found: sales'')
   \<and> relacion_vr_categoricas_charts example_table ''sales''
       = Inl (KeyError ''Column not found: sales'')"
proof -
  have ne: "select_dtypes np_object example_table \<noteq> []" by (rule example_table_subsets)
  have vr: "''sales'' \<notin> set (columns example_table)"
    by (simp add: example_table_def columns_def)
  have one: "length (getitem example_table (hd (columns (select_dtypes np_object example_table)))) = 1"
    by (simp add: example_table_def select_dtypes_def columns_def getitem_def)
  from relacion_vr_categoricas_missing_vr [OF ne vr] one show ?thesis by simp
qed

text \<open>
  Claim C7 as it is written promises the column-not-found error for every table.  When
  the first text column shares its label with another column, pandas rejects the
  grouping before it looks for \<^verbatim>\<open>vr\<close>.
\<close>

theorem relacion_vr_categoricas_repeated_label:
  "select_dtypes np_object [\<lparr>name = ''a'', kind = Object, vals = [S ''x'']\<rparr>,
                            \<lparr>name = ''a'', kind = Object, vals = [S ''y'']\<rparr>] \<noteq> []
   \<and> ''z'' \<notin> set (columns [\<lparr>name = ''a'', kind = Object, vals = [S ''x'']\<rparr>,
                            \<lparr>name = ''a'', kind = Object, vals = [S ''y'']\<rparr>])
   \<and> relacion_vr_categoricas [\<lparr>name = ''a'', kind = Object, vals = [S ''x'']\<rparr>,
                            \<lparr>name = ''a'', kind = Object, vals = [S ''y'']\<rparr>] ''z''
       = Inl (ValueError ''Grouper not 1-dimensional'')"
  by (simp add: relacion_vr_categoricas_def relacion_vr_categoricas_charts_def
      select_dtypes_def columns_def getitem_def
      math_ceil_half_eq subplots_def py_bind_Inr py_bind_Inl relacion_vr_categoricas_body_def
      groupby_mean_sorted_def)


section \<open>A table without a column of the kind a renderer needs\<close>

text \<open>
  Claim C8, as the code has it.  For every table whose relevant column subset is empty,
  each of the five grid renderers asks matplotlib for a grid of \<open>math.ceil(0 / 2) = 0\<close>
  rows; matplotlib rejects it with \<^verbatim>\<open>ValueError\<close>, nothing is drawn, and the exception
  reaches the caller.  No renderer tests for the empty subset and none reports a
  condition of its own.
\<close>

theorem empty_subset_zero_rows:
  "(fst (separar_df df) = [] \<longrightarrow>
      plot_numericas df nbins = Inl (ValueError ''Number of rows must be a positive integer''))
 \<and> (snd (separar_df df) = [] \<longrightarrow>
      plot_categoricas df = Inl (ValueError ''Number of rows must be a positive integer''))
 \<and> (select_dtypes np_object df = [] \<longrightarrow>
      relacion_vr_categoricas df vr = Inl (ValueError ''Number of rows must be a positive integer''))
 \<and> (select_dtypes np_number df = [] \<longrightarrow>
      relacion_vr_numericas df vr = Inl (ValueError ''Number of rows must be a positive integer'')
    \<and> detectar_outliers df vr = Inl (ValueError ''Number of rows must be a positive integer''))"
  by (simp add: plot_numericas_def plot_categoricas_def relacion_vr_categoricas_def
      relacion_vr_numericas_def detectar_outliers_def plot_numericas_charts_def
      plot_categoricas_charts_def relacion_vr_categoricas_charts_def
      relacion_vr_numericas_charts_def detectar_outliers_charts_def columns_def ceil_half_zero
      subplots_zero py_bind_Inl)

theorem empty_subset_zero_rows_witness:
  "fst (separar_df [\<lparr>name = ''city'', kind = Object, vals = [S ''x'']\<rparr>]) = []
   \<and> plot_numericas [\<lparr>name = ''city'', kind = Object, vals = [S ''x'']\<rparr>] 20
       = Inl (ValueError ''Number of rows must be a positive integer'')
   \<and> snd (separar_df [\<lparr>name = ''age'', kind = Int64, vals = [N 1]\<rparr>]) = []
   \<and> plot_categoricas [\<lparr>name = ''age'', kind = Int64, vals = [N 1]\<rparr>]
       = Inl (ValueError ''Number of rows must be a positive integer'')"
  using empty_subset_zero_rows [of "[\<lparr>name = ''city'', kind = Object, vals = [S ''x'']\<rparr>]" 20]
    empty_subset_zero_rows [of "[\<lparr>name = ''age'', kind = Int64, vals = [N 1]\<rparr>]"]
  by (simp add: separar_df_def select_dtypes_def)

text \<open>
  Claim C8 as it is written, that a renderer does not fail on an empty subset, is false
  for a table with one text column and no numeric column.
\<close>

theorem plot_numericas_no_numeric_column:
  "length (columns (fst (separar_df [\<lparr>name = ''city'', kind = Object, vals = [S ''x'']\<rparr>]))) = 0
   \<and> plot_numericas [\<lparr>name = ''city'', kind = Object, vals = [S ''x'']\<rparr>] 20
       = Inl (ValueError ''Number of rows must be a positive integer'')"
  by (simp add: plot_numericas_def plot_numericas_charts_def separar_df_def select_dtypes_def
      columns_def ceil_half_zero subplots_zero py_bind_Inl)


section \<open>Claim C9: the table of the caller\<close>



section \<open>The response variable of the outlier renderer\<close>

text \<open>
  Claim C10.  For every table and every two values of the argument \<^verbatim>\<open>vr\<close>,
  \<^verbatim>\<open>detectar_outliers\<close> gives the same result: the same figure with the same boxplots,
  titles, colours and grid, or the same exception.  The argument is not used.
\<close>

theorem detectar_outliers_ignores_vr:
  "detectar_outliers df vr = detectar_outliers df vr'"
  by (simp add: detectar_outliers_def detectar_outliers_charts_def)


end
